theory Spec2Isabelle
  imports Complex_Main "HOL-Library.Word"
begin

unbundle bit_operations_syntax

section \<open>Constants of main.c\<close>

text \<open>
  The firmware is a single C file, \<^verbatim>\<open>stm32_modul/Core/Src/main.c\<close>, built with
  \<^verbatim>\<open>DEBUG\<close> defined and all three sensors enabled. Bytes that travel as text are
  \<^typ>\<open>char\<close> (eight bits), the binary packet is a list of \<^typ>\<open>8 word\<close>.
\<close>

abbreviation TIMEOUT :: "8 word" where "TIMEOUT \<equiv> 0"
abbreviation SUCCESS :: "8 word" where "SUCCESS \<equiv> 1"
abbreviation ERROR :: "8 word" where "ERROR \<equiv> 2"
abbreviation WAITING :: "8 word" where "WAITING \<equiv> 3"
abbreviation IDLE :: "8 word" where "IDLE \<equiv> 4"
abbreviation SEND_REQUEST :: "8 word" where "SEND_REQUEST \<equiv> 5"

abbreviation AT_TEST :: "8 word" where "AT_TEST \<equiv> 0"
abbreviation AT_SET_CONNECT_MODE :: "8 word" where "AT_SET_CONNECT_MODE \<equiv> 1"
abbreviation AT_SET_MAX_CONNECTIONS :: "8 word" where "AT_SET_MAX_CONNECTIONS \<equiv> 2"
abbreviation AT_START_SERVER :: "8 word" where "AT_START_SERVER \<equiv> 3"
abbreviation AT_SEND_HTML_HEADER :: "8 word" where "AT_SEND_HTML_HEADER \<equiv> 4"
abbreviation AT_SEND_HTML :: "8 word" where "AT_SEND_HTML \<equiv> 5"
abbreviation AT_SEND_CONNECT_REQUEST :: "8 word" where "AT_SEND_CONNECT_REQUEST \<equiv> 6"

abbreviation HEADER_MAG :: "16 word" where "HEADER_MAG \<equiv> 0xAAAB"
abbreviation HEADER_ACC :: "16 word" where "HEADER_ACC \<equiv> 0xBBBB"
abbreviation HEADER_GYR :: "16 word" where "HEADER_GYR \<equiv> 0xCCCC"
abbreviation BUFFER_SIZE :: nat where "BUFFER_SIZE \<equiv> 64"

abbreviation MODE_NONE :: "8 word" where "MODE_NONE \<equiv> 0"
abbreviation MODE_BINARY_UART :: "8 word" where "MODE_BINARY_UART \<equiv> 1"
abbreviation MODE_ASCII_UART :: "8 word" where "MODE_ASCII_UART \<equiv> 2"
abbreviation MODE_BINARY_CDC :: "8 word" where "MODE_BINARY_CDC \<equiv> 3"
abbreviation MODE_ASCII_CDC :: "8 word" where "MODE_ASCII_CDC \<equiv> 4"

text \<open>
  \<^verbatim>\<open>#define RX_BUFFER_SIZE 2048 * 4\<close> has no parentheses; every use in the file
  (\<^verbatim>\<open>RX_BUFFER_SIZE - 2\<close>, the array size, the \<^verbatim>\<open>memset\<close> length) parses to the
  same number as the parenthesised macro would.
\<close>

definition RX_BUFFER_SIZE :: nat where
  "RX_BUFFER_SIZE = 2048 * 4"

abbreviation NUL :: char where "NUL \<equiv> CHR 0x00"
abbreviation CRLF :: string where "CRLF \<equiv> [CHR 0x0D, CHR 0x0A]"
abbreviation LF :: string where "LF \<equiv> [CHR 0x0A]"
abbreviation DQ :: string where "DQ \<equiv> [CHR 0x22]"

text \<open>The pins of \<^verbatim>\<open>HAL_GPIO_EXTI_Callback\<close>, as the HAL header numbers them.\<close>

abbreviation GPIO_PIN_0 :: "16 word" where "GPIO_PIN_0 \<equiv> 0x0001"
abbreviation GPIO_PIN_1 :: "16 word" where "GPIO_PIN_1 \<equiv> 0x0002"
abbreviation GPIO_PIN_2 :: "16 word" where "GPIO_PIN_2 \<equiv> 0x0004"
abbreviation GPIO_PIN_4 :: "16 word" where "GPIO_PIN_4 \<equiv> 0x0010"

section \<open>State: the globals, the function statics and the environment\<close>

text \<open>
  What leaves the microcontroller is recorded in a trace: a call of \<^verbatim>\<open>CDC_Transmit_FS\<close>
  (the local USB serial port), a call of \<^verbatim>\<open>HAL_UART_Transmit\<close> on \<^verbatim>\<open>huart2\<close> (the
  modem), and the sensor bus reads. The text calls and the two binary calls of the sensor
  handlers (which pass \<^verbatim>\<open>binary_buffer, 10\<close>) have constructors of their own.
\<close>

datatype io =
    Cdc_Tx string
  | Cdc_Tx_Bin "8 word list"
  | Uart_Tx string
  | Uart_Tx_Bin "8 word list"
  | I2c_Read "8 word" "8 word" nat
  | Spi_Read "8 word" nat

text \<open>
  An interrupt request: a byte in the receive register of USART2, or an edge on an EXTI
  line (with the level \<^verbatim>\<open>HAL_GPIO_ReadPin(GPIOA, GPIO_PIN_0)\<close> then reads).
\<close>

datatype irq =
    USART2_RXNE char
  | EXTI "16 word" bool

text \<open>
  The record holds the file's globals under their names, the two function statics
  (\<^verbatim>\<open>last_send_time\<close> of \<^verbatim>\<open>Transmit_Data_ASCII\<close> and of \<^verbatim>\<open>Send_Data_To_Server\<close>),
  and the environment: the tick counter \<^verbatim>\<open>uwTick\<close> behind \<^verbatim>\<open>HAL_GetTick\<close>, the
  address the HAL's one-byte interrupt reception is armed with (\<open>None\<close> when it is not
  armed), the interrupt requests still to come (each with the ticks between it and the one
  before), the raw sample a sensor delivers at a tick, the \<^verbatim>\<open>%.3f\<close> conversion of
  \<^verbatim>\<open>snprintf\<close>, and the trace. \<^verbatim>\<open>last_buffer\<close> and \<^verbatim>\<open>last_rx_tick\<close> are never
  used by the file and are left out, and so are the debug LEDs.
\<close>

record state =
  data_ready_mag :: "8 word"
  data_ready_acc :: "8 word"
  data_ready_gyr :: "8 word"
  packet_number :: "16 word"
  transmission_mode :: "8 word"
  rx_buffer :: "nat \<Rightarrow> char"
  rx_index :: "16 word"
  button_press_start :: "32 word"
  button_pressed :: "8 word"
  button_action_pending :: "8 word"
  button_action_type :: "8 word"
  setup_stage :: "8 word"
  response_status :: "8 word"
  has_response_changed :: "8 word"
  tick_when_sent :: "32 word"
  is_client_connected :: "8 word"
  was_client_connected :: "8 word"
  is_client_requesting_page :: "8 word"
  was_client_requesting_page :: "8 word"
  connection_established :: "8 word"
  receiving_data :: "8 word"
  ascii_last_send_time :: "32 word"
  server_last_send_time :: "32 word"
  uwTick :: "32 word"
  uart_rx_ptr :: "nat option"
  pending :: "(nat \<times> irq) list"
  sensor_sample :: "8 word \<Rightarrow> 32 word \<Rightarrow> 16 word \<times> 16 word \<times> 16 word"
  printf_f3 :: "rat \<Rightarrow> string"
  trace :: "io list"


section \<open>C strings and formatting\<close>

text \<open>\<^verbatim>\<open>strlen\<close> of a literal that holds a \<^verbatim>\<open>\0\<close> stops there.\<close>

definition c_str :: "string \<Rightarrow> string" where
  "c_str cs = takeWhile (\<lambda>c. c \<noteq> NUL) cs"

fun starts_with :: "string \<Rightarrow> string \<Rightarrow> bool" where
  "starts_with hay [] = True"
| "starts_with [] (n # ns) = False"
| "starts_with (h # hs) (n # ns) = (h = n \<and> starts_with hs ns)"

text \<open>\<^verbatim>\<open>strstr\<close>: the offset of the first occurrence, \<open>None\<close> for \<^verbatim>\<open>NULL\<close>.\<close>

fun strstr :: "string \<Rightarrow> string \<Rightarrow> nat option" where
  "strstr [] needle = (if needle = [] then Some 0 else None)"
| "strstr (h # hs) needle =
     (if starts_with (h # hs) needle then Some 0 else map_option Suc (strstr hs needle))"

text \<open>
  The C string that starts at an index of the receive buffer: the bytes up to the first
  \<^verbatim>\<open>\0\<close>. The receive callback keeps a \<^verbatim>\<open>\0\<close> inside the array (see the invariant
  below), so the scan never has to leave it; the model stops at the array's end.
\<close>

function string_at :: "(nat \<Rightarrow> char) \<Rightarrow> nat \<Rightarrow> string" where
  "string_at buf i =
     (if i < RX_BUFFER_SIZE \<and> buf i \<noteq> NUL then buf i # string_at buf (Suc i) else [])"
  by pat_completeness auto
termination
  by (relation "measure (\<lambda>(buf, i). RX_BUFFER_SIZE - i)") auto

declare string_at.simps [simp del]

definition rx_string :: "state \<Rightarrow> string" where
  "rx_string s = string_at (rx_buffer s) 0"

text \<open>\<^verbatim>\<open>%d\<close> of a value that is not negative.\<close>

definition digit_char :: "nat \<Rightarrow> char" where
  "digit_char n = ''0123456789'' ! n"

fun show_nat :: "nat \<Rightarrow> string" where
  "show_nat n = (if n < 10 then [digit_char n] else show_nat (n div 10) @ [digit_char (n mod 10)])"

declare show_nat.simps [simp del]

text \<open>\<^verbatim>\<open>snprintf(buf, size, ...)\<close> keeps at most \<open>size - 1\<close> characters of the text.\<close>

definition snprintf :: "nat \<Rightarrow> string \<Rightarrow> string" where
  "snprintf n text = take (n - 1) text"

section \<open>The HAL: ticks, transmission, one-byte reception, interrupts\<close>

definition HAL_GetTick :: "state \<Rightarrow> 32 word" where
  "HAL_GetTick s = uwTick s"

text \<open>
  \<^verbatim>\<open>CDC_Transmit_FS(buf, len)\<close> on a literal: \<open>len\<close> bytes of the literal and its
  terminator (no call in the file passes more than the literal's length plus one).
\<close>

definition CDC_Transmit_FS :: "string \<Rightarrow> nat \<Rightarrow> state \<Rightarrow> state" where
  "CDC_Transmit_FS buf len s = s\<lparr>trace := trace s @ [Cdc_Tx (take len (buf @ [NUL]))]\<rparr>"

definition CDC_Transmit_FS_bytes :: "8 word list \<Rightarrow> nat \<Rightarrow> state \<Rightarrow> state" where
  "CDC_Transmit_FS_bytes buf len s = s\<lparr>trace := trace s @ [Cdc_Tx_Bin (take len buf)]\<rparr>"

definition HAL_UART_Transmit :: "string \<Rightarrow> nat \<Rightarrow> state \<Rightarrow> state" where
  "HAL_UART_Transmit buf len s = s\<lparr>trace := trace s @ [Uart_Tx (take len (buf @ [NUL]))]\<rparr>"

definition HAL_UART_Transmit_bytes :: "8 word list \<Rightarrow> nat \<Rightarrow> state \<Rightarrow> state" where
  "HAL_UART_Transmit_bytes buf len s = s\<lparr>trace := trace s @ [Uart_Tx_Bin (take len buf)]\<rparr>"

text \<open>
  \<^verbatim>\<open>HAL_UART_Receive_IT(&huart2, &rx_buffer[i], 1)\<close> arms the reception of one byte at
  index \<open>i\<close>, and does nothing (\<^verbatim>\<open>HAL_BUSY\<close>) while a reception is armed.
\<close>

definition HAL_UART_Receive_IT :: "nat \<Rightarrow> state \<Rightarrow> state" where
  "HAL_UART_Receive_IT i s = (if uart_rx_ptr s = None then s\<lparr>uart_rx_ptr := Some i\<rparr> else s)"

definition HAL_UART_AbortReceive_IT :: "state \<Rightarrow> state" where
  "HAL_UART_AbortReceive_IT s = s\<lparr>uart_rx_ptr := None\<rparr>"

text \<open>The receive-complete callback; the flag is \<^verbatim>\<open>huart->Instance == USART2\<close>.\<close>

definition HAL_UART_RxCpltCallback :: "bool \<Rightarrow> state \<Rightarrow> state" where
  "HAL_UART_RxCpltCallback is_usart2 s =
     (if is_usart2 then
        (if unat (rx_index s) < 2048 * 4 - 2 then
           let s = s\<lparr>rx_index := rx_index s + 1\<rparr>;
               s = s\<lparr>rx_buffer := (rx_buffer s)(unat (rx_index s) + 1 := NUL)\<rparr>
           in HAL_UART_Receive_IT (unat (rx_index s)) s
         else
           let s = s\<lparr>rx_index := 0\<rparr>;
               s = s\<lparr>rx_buffer := (rx_buffer s)(1 := NUL)\<rparr>
           in HAL_UART_Receive_IT (unat (rx_index s)) s)
      else s)"

text \<open>
  The HAL's interrupt handler of USART2: with a reception armed it stores the byte at the
  armed address, ends the reception and calls the callback; a byte that arrives while no
  reception is armed is lost.
\<close>

definition USART2_IRQHandler :: "char \<Rightarrow> state \<Rightarrow> state" where
  "USART2_IRQHandler c s =
     (case uart_rx_ptr s of
        None \<Rightarrow> s
      | Some p \<Rightarrow>
          HAL_UART_RxCpltCallback True (s\<lparr>rx_buffer := (rx_buffer s)(p := c), uart_rx_ptr := None\<rparr>))"

definition HAL_GPIO_EXTI_Callback :: "16 word \<Rightarrow> bool \<Rightarrow> state \<Rightarrow> state" where
  "HAL_GPIO_EXTI_Callback GPIO_Pin pa0_set s =
     (let s = (if GPIO_Pin = GPIO_PIN_0 then
                 (if pa0_set then
                    s\<lparr>button_pressed := 1, button_press_start := HAL_GetTick s\<rparr>
                  else
                    let s = s\<lparr>button_pressed := 0\<rparr>;
                        press_duration = HAL_GetTick s - button_press_start s;
                        s = (if press_duration < 500 then s\<lparr>button_action_type := 0\<rparr>
                             else s\<lparr>button_action_type := 1\<rparr>)
                    in s\<lparr>button_action_pending := 1\<rparr>)
               else s);
          s = (if GPIO_Pin = GPIO_PIN_2 then s\<lparr>data_ready_mag := 1\<rparr> else s);
          s = (if GPIO_Pin = GPIO_PIN_4 then s\<lparr>data_ready_acc := 1\<rparr> else s);
          s = (if GPIO_Pin = GPIO_PIN_1 then s\<lparr>data_ready_gyr := 1\<rparr> else s)
      in s)"

fun isr :: "irq \<Rightarrow> state \<Rightarrow> state" where
  "isr (USART2_RXNE c) s = USART2_IRQHandler c s"
| "isr (EXTI pin level) s = HAL_GPIO_EXTI_Callback pin level s"

text \<open>
  Time passes in \<^verbatim>\<open>HAL_Delay\<close> and in the polling loops, and only there; the foreground
  code between two waits is taken to run within one tick. While \<open>d\<close> ticks pass, the
  interrupt requests that fall due are served in order, each at its own tick.
\<close>

fun deliver :: "nat \<Rightarrow> (nat \<times> irq) list \<Rightarrow> state \<Rightarrow> state" where
  "deliver d [] s = s\<lparr>pending := []\<rparr>"
| "deliver d ((gap, e) # rest) s =
     (if gap \<le> d then deliver (d - gap) rest (isr e (s\<lparr>uwTick := uwTick s + of_nat gap\<rparr>))
      else s\<lparr>pending := (gap - d, e) # rest\<rparr>)"

definition HAL_Delay :: "nat \<Rightarrow> state \<Rightarrow> state" where
  "HAL_Delay d s = (deliver d (pending s) s)\<lparr>uwTick := uwTick s + of_nat d\<rparr>"

section \<open>Packing\<close>

text \<open>
  \<^verbatim>\<open>Pack_Data\<close> fills the ten bytes of \<^verbatim>\<open>binary_buffer\<close>. Each operand is promoted to
  a 32-bit \<^verbatim>\<open>int\<close> (the header and the packet number zero-extended, the \<^verbatim>\<open>int16_t\<close>
  axis values sign-extended, their \<^verbatim>\<open>>>\<close> an arithmetic shift) and the result is cut to
  a byte by the assignment.
\<close>

definition Pack_Data :: "16 word \<Rightarrow> 16 word \<Rightarrow> 16 word \<Rightarrow> 16 word \<Rightarrow> state \<Rightarrow> 8 word list" where
  "Pack_Data header x y z s =
     [ucast ((ucast header :: 32 word) AND 0xFF),
      ucast (drop_bit 8 (ucast header :: 32 word) AND 0xFF),
      ucast ((ucast (packet_number s) :: 32 word) AND 0xFF),
      ucast (drop_bit 8 (ucast (packet_number s) :: 32 word) AND 0xFF),
      ucast ((scast x :: 32 word) AND 0xFF),
      ucast (signed_drop_bit 8 (scast x :: 32 word) AND 0xFF),
      ucast ((scast y :: 32 word) AND 0xFF),
      ucast (signed_drop_bit 8 (scast y :: 32 word) AND 0xFF),
      ucast ((scast z :: 32 word) AND 0xFF),
      ucast (signed_drop_bit 8 (scast z :: 32 word) AND 0xFF)]"

text \<open>Reading two bytes of the packet as a little-endian 16-bit field.\<close>

definition le16 :: "8 word \<Rightarrow> 8 word \<Rightarrow> 16 word" where
  "le16 lo hi = push_bit 8 (ucast hi) OR ucast lo"

section \<open>Response status, receive buffer, commands\<close>

definition Change_Response_Status :: "8 word \<Rightarrow> state \<Rightarrow> state" where
  "Change_Response_Status new_status s =
     (if new_status < 0 \<or> new_status > 5 then s
      else s\<lparr>has_response_changed := 1, response_status := new_status\<rparr>)"

definition memset_rx_buffer :: "(nat \<Rightarrow> char) \<Rightarrow> nat \<Rightarrow> char" where
  "memset_rx_buffer buf = (\<lambda>i. if i < RX_BUFFER_SIZE then NUL else buf i)"

definition Clear_RX_Buffer :: "state \<Rightarrow> state" where
  "Clear_RX_Buffer s =
     (let s = HAL_UART_AbortReceive_IT s;
          s = s\<lparr>rx_buffer := memset_rx_buffer (rx_buffer s)\<rparr>;
          s = s\<lparr>rx_index := 0\<rparr>
      in HAL_UART_Receive_IT 0 s)"

definition Send_Command :: "string \<Rightarrow> state \<Rightarrow> state" where
  "Send_Command cmd s =
     (let s = HAL_UART_AbortReceive_IT s;
          s = Clear_RX_Buffer s;
          s = s\<lparr>tick_when_sent := HAL_GetTick s\<rparr>;
          s = Change_Response_Status WAITING s;
          s = HAL_UART_Transmit cmd (length (c_str cmd)) s
      in HAL_UART_Receive_IT (unat (rx_index s)) s)"

definition Is_Timedout :: "32 word \<Rightarrow> state \<Rightarrow> 8 word" where
  "Is_Timedout timeout_ms s =
     (let current_tick = HAL_GetTick s
      in if (current_tick - tick_when_sent s) > timeout_ms then 1 else 0)"


section \<open>Sensor handlers\<close>

text \<open>
  The bus primitives: a read of \<open>len\<close> bytes is an event of the trace. The six bytes a
  handler reads into \<^verbatim>\<open>int16_t raw_data[3]\<close> are the three raw values the sensor
  holds at that tick. The chip-select pin and the \<^verbatim>\<open>pavza\<close> pauses of the SPI helper are
  not modelled.
\<close>

definition Beri_Registre :: "8 word \<Rightarrow> 8 word \<Rightarrow> nat \<Rightarrow> state \<Rightarrow> state" where
  "Beri_Registre device reg len s =
     (let reg = (if len > 1 then reg OR 0x80 else reg);
          device = push_bit 1 device
      in s\<lparr>trace := trace s @ [I2c_Read device reg len]\<rparr>)"

definition spi1_beriRegistre :: "8 word \<Rightarrow> nat \<Rightarrow> state \<Rightarrow> state" where
  "spi1_beriRegistre reg velikost s =
     (let reg = reg OR 0xC0
      in s\<lparr>trace := trace s @ [Spi_Read reg velikost]\<rparr>)"

definition raw_data :: "8 word \<Rightarrow> state \<Rightarrow> 16 word \<times> 16 word \<times> 16 word" where
  "raw_data device s = sensor_sample s device (HAL_GetTick s)"

definition Clear_Interrupts :: "state \<Rightarrow> state" where
  "Clear_Interrupts s =
     (let s = Beri_Registre 0x1E 0x68 6 s;
          s = Beri_Registre 0x19 (0x28 OR 0x80) 6 s
      in Beri_Registre 0x6B (0x28 OR 0x80) 6 s)"

text \<open>
  The conversions multiply an \<^verbatim>\<open>int16_t\<close> by \<^verbatim>\<open>50.0f / 32768.0f\<close>,
  \<^verbatim>\<open>4.0f / 32768.0f\<close> or \<^verbatim>\<open>500.0f / 32768.0f\<close>. Each factor is a float, and the
  product of a 16-bit integer with it has at most 23 significant bits, so the float
  result is the exact rational.
\<close>

definition Convert_To_Gauss :: "16 word \<Rightarrow> rat" where
  "Convert_To_Gauss raw_value = of_int (sint raw_value) * (50 / 32768)"

definition Convert_To_G :: "16 word \<Rightarrow> rat" where
  "Convert_To_G raw_value = of_int (sint raw_value) * (4 / 32768)"

definition Convert_To_Dps :: "16 word \<Rightarrow> rat" where
  "Convert_To_Dps raw_value = of_int (sint raw_value) * (500 / 32768)"

section \<open>Sending to the server\<close>

text \<open>The three waiting loops of \<^verbatim>\<open>Send_Data_To_Server\<close>.\<close>

function wait_prompt :: "32 word \<Rightarrow> state \<Rightarrow> bool \<times> state" where
  "wait_prompt start_time s =
     (if (HAL_GetTick s - start_time) < 1000 then
        (if strstr (rx_string s) ''>'' \<noteq> None then
           (True, HAL_Delay 50 (CDC_Transmit_FS (''Received '' @ [CHR 0x27] @ ''>'' @ [CHR 0x27] @ '' prompt'' @ LF) 20 s))
         else wait_prompt start_time (HAL_Delay 10 s))
      else (False, s))"
  by pat_completeness auto
termination
proof (relation "measure (\<lambda>(start_time, s). 1000 - unat (uwTick s - start_time))", goal_cases)
  case 1
  show ?case by simp
next
  case (2 start_time s)
  define x where "x = uwTick s - start_time"
  have "x < 1000" using 2 by (simp add: x_def HAL_GetTick_def)
  then have "unat x < 1000" by (simp add: word_less_nat_alt)
  then have "unat (x + 10) = unat x + 10" by (simp add: unat_word_ariths)
  moreover have "uwTick (HAL_Delay 10 s) - start_time = x + 10"
    by (simp add: HAL_Delay_def x_def)
  ultimately have "unat (uwTick (HAL_Delay 10 s) - start_time) = unat x + 10" by simp
  with \<open>unat x < 1000\<close> show ?case unfolding x_def by simp
qed

declare wait_prompt.simps [simp del]

function send_retry :: "string \<Rightarrow> nat \<Rightarrow> 32 word \<Rightarrow> state \<Rightarrow> bool \<times> state" where
  "send_retry cmd retries start_time s =
     (if retries < 3 then
        (case wait_prompt start_time s of
           (True, s) \<Rightarrow> (True, s)
         | (False, s) \<Rightarrow>
             let retries = retries + 1
             in if retries < 3 then
                  let s = CDC_Transmit_FS (''Retrying CIPSEND...'' @ LF) 20 s;
                      s = Clear_RX_Buffer s;
                      s = Send_Command cmd s;
                      s = HAL_Delay 200 s
                  in send_retry cmd retries (HAL_GetTick s) s
                else send_retry cmd retries start_time s)
      else (False, s))"
  by pat_completeness auto
termination
  by (relation "measure (\<lambda>(cmd, retries, start_time, s). 3 - retries)") auto

declare send_retry.simps [simp del]

function wait_send_ok :: "32 word \<Rightarrow> state \<Rightarrow> bool \<times> state" where
  "wait_send_ok start_time s =
     (if (HAL_GetTick s - start_time) < 2000 then
        (if strstr (rx_string s) ''SEND OK'' \<noteq> None then
           (let s = CDC_Transmit_FS (''Data sent successfully'' @ LF) 23 s
            in (True, s\<lparr>server_last_send_time := HAL_GetTick s\<rparr>))
         else wait_send_ok start_time (HAL_Delay 10 s))
      else (False, s))"
  by pat_completeness auto
termination
proof (relation "measure (\<lambda>(start_time, s). 2000 - unat (uwTick s - start_time))", goal_cases)
  case 1
  show ?case by simp
next
  case (2 start_time s)
  define x where "x = uwTick s - start_time"
  have "x < 2000" using 2 by (simp add: x_def HAL_GetTick_def)
  then have "unat x < 2000" by (simp add: word_less_nat_alt)
  then have "unat (x + 10) = unat x + 10" by (simp add: unat_word_ariths)
  moreover have "uwTick (HAL_Delay 10 s) - start_time = x + 10"
    by (simp add: HAL_Delay_def x_def)
  ultimately have "unat (uwTick (HAL_Delay 10 s) - start_time) = unat x + 10" by simp
  with \<open>unat x < 2000\<close> show ?case unfolding x_def by simp
qed

declare wait_send_ok.simps [simp del]

text \<open>
  The end of \<^verbatim>\<open>Send_Data_To_Server\<close>, reached once the prompt has been seen: the
  request goes out and the acknowledgment is awaited.
\<close>

definition send_payload :: "string \<Rightarrow> state \<Rightarrow> state" where
  "send_payload request s =
     (let s = Clear_RX_Buffer s;
          s = CDC_Transmit_FS (''Sending data...'' @ LF) 16 s;
          s = HAL_UART_Transmit request (length request) s
      in case wait_send_ok (HAL_GetTick s) s of
           (True, s) \<Rightarrow> Clear_RX_Buffer s
         | (False, s) \<Rightarrow>
             let s = CDC_Transmit_FS (''Send timeout - Response:'' @ LF) 25 s;
                 s = CDC_Transmit_FS (rx_string s) (length (rx_string s)) s
             in Clear_RX_Buffer s)"

definition Send_Data_To_Server :: "string \<Rightarrow> state \<Rightarrow> state" where
  "Send_Data_To_Server json_data s =
     (let current_time = HAL_GetTick s
      in if current_time - server_last_send_time s < 500 then s
         else
           let request = snprintf 512
                 (''POST /data HTTP/1.1'' @ CRLF @ ''Host: 172.20.10.11'' @ CRLF @
                  ''Content-Type: application/json'' @ CRLF @
                  ''Content-Length: '' @ show_nat (length json_data) @ CRLF @
                  ''Connection: keep-alive'' @ CRLF @ CRLF @ json_data)
           in if length request > 512 then
                CDC_Transmit_FS (''Data too large to send'' @ LF) 23 s
              else
                let s = CDC_Transmit_FS (''Checking connection status...'' @ LF) 29 s;
                    s = Send_Command (''AT+CIPSTATUS'' @ CRLF) s;
                    s = HAL_Delay 100 s
                in if strstr (rx_string s) ''STATUS:4'' \<noteq> None
                      \<or> strstr (rx_string s) ''STATUS:5'' \<noteq> None then
                     let s = CDC_Transmit_FS (''Connection lost, reconnecting...'' @ LF) 32 s;
                         s = Clear_RX_Buffer s
                     in s\<lparr>connection_established := 0\<rparr>
                   else
                     let s = Clear_RX_Buffer s;
                         s = CDC_Transmit_FS (''Sending CIPSEND command...'' @ LF) 27 s;
                         cmd = snprintf 128 (''AT+CIPSEND=0,'' @ show_nat (length request) @ CRLF);
                         s = Send_Command cmd s;
                         s = HAL_Delay 200 s
                     in case send_retry cmd 0 (HAL_GetTick s) s of
                          (False, s) \<Rightarrow>
                            let s = CDC_Transmit_FS (''Failed after max retries'' @ LF) 25 s;
                                s = Clear_RX_Buffer s
                            in s\<lparr>connection_established := 0\<rparr>
                        | (True, s) \<Rightarrow> send_payload request s)"

definition Transmit_Data_ASCII :: "string \<Rightarrow> rat \<Rightarrow> rat \<Rightarrow> rat \<Rightarrow> state \<Rightarrow> state" where
  "Transmit_Data_ASCII sensor_label x y z s =
     (let ascii_buffer = snprintf BUFFER_SIZE
            (''{'' @ DQ @ sensor_label @ DQ @ '':'' @ show_nat (unat (packet_number s)) @
             '','' @ DQ @ ''X'' @ DQ @ '':'' @ printf_f3 s x @
             '','' @ DQ @ ''Y'' @ DQ @ '':'' @ printf_f3 s y @
             '','' @ DQ @ ''Z'' @ DQ @ '':'' @ printf_f3 s z @ ''}'')
      in if transmission_mode s = MODE_ASCII_UART then
           (if connection_established s \<noteq> 0 then
              let current_time = HAL_GetTick s
              in if current_time - ascii_last_send_time s \<ge> 100 then
                   let s = Send_Data_To_Server ascii_buffer s
                   in s\<lparr>ascii_last_send_time := current_time\<rparr>
                 else s
            else s)
         else if transmission_mode s = MODE_ASCII_CDC then
           CDC_Transmit_FS ascii_buffer (length ascii_buffer) s
         else s)"

definition Handle_Magnetometer :: "state \<Rightarrow> state" where
  "Handle_Magnetometer s =
     (let s = s\<lparr>data_ready_mag := 0\<rparr>;
          (x, y, z) = raw_data 0x1E s;
          s = Beri_Registre 0x1E 0x68 6 s;
          s = Clear_Interrupts s;
          s = (if transmission_mode s = MODE_BINARY_UART \<or> transmission_mode s = MODE_BINARY_CDC then
                 let binary_buffer = Pack_Data HEADER_MAG x y z s
                 in if transmission_mode s = MODE_BINARY_UART then
                      HAL_UART_Transmit_bytes binary_buffer 10 s
                    else CDC_Transmit_FS_bytes binary_buffer 10 s
               else if transmission_mode s = MODE_ASCII_UART \<or> transmission_mode s = MODE_ASCII_CDC then
                 Transmit_Data_ASCII ''MAG'' (Convert_To_Gauss x) (Convert_To_Gauss y) (Convert_To_Gauss z) s
               else s)
      in s\<lparr>packet_number := packet_number s + 1\<rparr>)"

definition Handle_Accelerometer :: "state \<Rightarrow> state" where
  "Handle_Accelerometer s =
     (let s = s\<lparr>data_ready_acc := 0\<rparr>;
          (x, y, z) = raw_data 0x19 s;
          s = Beri_Registre 0x19 (0x28 OR 0x80) 6 s;
          s = Clear_Interrupts s;
          s = (if transmission_mode s = MODE_BINARY_UART \<or> transmission_mode s = MODE_BINARY_CDC then
                 let binary_buffer = Pack_Data HEADER_ACC x y z s
                 in if transmission_mode s = MODE_BINARY_UART then
                      HAL_UART_Transmit_bytes binary_buffer 10 s
                    else CDC_Transmit_FS_bytes binary_buffer 10 s
               else if transmission_mode s = MODE_ASCII_UART \<or> transmission_mode s = MODE_ASCII_CDC then
                 Transmit_Data_ASCII ''ACC'' (Convert_To_G x) (Convert_To_G y) (Convert_To_G z) s
               else s)
      in s\<lparr>packet_number := packet_number s + 1\<rparr>)"

definition Handle_Gyroscope :: "state \<Rightarrow> state" where
  "Handle_Gyroscope s =
     (let s = s\<lparr>data_ready_gyr := 0\<rparr>;
          (x, y, z) = raw_data 0x6B s;
          s = spi1_beriRegistre (0x28 OR 0x80) 6 s;
          s = Clear_Interrupts s;
          s = (if transmission_mode s = MODE_BINARY_UART \<or> transmission_mode s = MODE_BINARY_CDC then
                 let binary_buffer = Pack_Data HEADER_GYR x y z s
                 in if transmission_mode s = MODE_BINARY_UART then
                      HAL_UART_Transmit_bytes binary_buffer 10 s
                    else CDC_Transmit_FS_bytes binary_buffer 10 s
               else if transmission_mode s = MODE_ASCII_UART \<or> transmission_mode s = MODE_ASCII_CDC then
                 Transmit_Data_ASCII ''GYR'' (Convert_To_Dps x) (Convert_To_Dps y) (Convert_To_Dps z) s
               else s)
      in s\<lparr>packet_number := packet_number s + 1\<rparr>)"


section \<open>Provisioning the modem\<close>

definition html_page2 :: string where
  "html_page2 =
     ''HTTP/1.1 200 OK'' @ CRLF @ ''Content-Type: text/html'' @ CRLF @
     ''Content-Length: 253'' @ CRLF @ CRLF @
     ''<!DOCTYPE html><html><head><title>Wi-Fi Config</title></head><body><form method='' @ DQ @
     ''GET'' @ DQ @ '' action='' @ DQ @ ''/'' @ DQ @ '' accept-charset='' @ DQ @ ''utf-8'' @ DQ @
     ''>SSID: <input type='' @ DQ @ ''text'' @ DQ @ '' name='' @ DQ @ ''ssid'' @ DQ @
     ''><br>Password: <input type='' @ DQ @ ''text'' @ DQ @ '' name='' @ DQ @ ''password'' @ DQ @
     ''><br><input type='' @ DQ @ ''submit'' @ DQ @ '' value='' @ DQ @ ''Submit'' @ DQ @
     ''></form></body></html>'' @ CRLF"

definition Send_HTML_Header :: "state \<Rightarrow> state" where
  "Send_HTML_Header s = Send_Command (''AT+CIPSEND=0,334'' @ CRLF) s"

definition Configure_ESP_As_Access_Point :: "state \<Rightarrow> state" where
  "Configure_ESP_As_Access_Point s =
     (let s =
        (if setup_stage s = AT_TEST then
           let s = CDC_Transmit_FS (''Sending AT Test command'' @ CRLF) 25 s;
               s = HAL_Delay 10 s
           in Send_Command (''AT'' @ CRLF @ [NUL]) s
         else if setup_stage s = AT_SET_CONNECT_MODE then
           let s = CDC_Transmit_FS (''Sending AT set HotSpot and Connect mode command'' @ CRLF) 49 s;
               s = HAL_Delay 10 s
           in Send_Command (''AT+CWMODE=3'' @ CRLF @ [NUL]) s
         else if setup_stage s = AT_SET_MAX_CONNECTIONS then
           let s = CDC_Transmit_FS (''Sending AT set max connections command'' @ CRLF) 40 s;
               s = HAL_Delay 10 s
           in Send_Command (''AT+CIPMUX=1'' @ CRLF @ [NUL]) s
         else if setup_stage s = AT_START_SERVER then
           let s = CDC_Transmit_FS (''Sending AT start server command'' @ CRLF) 33 s;
               s = HAL_Delay 10 s
           in Send_Command (''AT+CIPSERVER=1,80'' @ CRLF @ [NUL]) s
         else if setup_stage s = AT_SEND_HTML_HEADER then
           let s = CDC_Transmit_FS (''Sending HTML Header'' @ CRLF) 21 s;
               s = HAL_Delay 10 s
           in Send_HTML_Header s
         else if setup_stage s = AT_SEND_HTML then
           let s = CDC_Transmit_FS (''Sending HTML'' @ CRLF) 14 s;
               s = HAL_Delay 10 s
           in Send_Command html_page2 s
         else
           let s = CDC_Transmit_FS (''That Setup Stage not implemented yet'' @ CRLF) 38 s
           in HAL_Delay 10 s)
      in HAL_Delay 10 s)"

definition Send_Connect_Request :: "string \<Rightarrow> string \<Rightarrow> state \<Rightarrow> state" where
  "Send_Connect_Request ssid password s =
     (let cmd = snprintf 128 (''AT+CWJAP='' @ DQ @ ssid @ DQ @ '','' @ DQ @ password @ DQ @ CRLF)
      in Send_Command cmd s)"

text \<open>
  \<^verbatim>\<open>strncpy(dst, start, end - start)\<close> into a zeroed array of \<open>cap\<close> bytes, or
  \<^verbatim>\<open>strncpy(dst, start, cap - 1)\<close> when the end marker is absent. A field of \<open>cap\<close>
  characters or more overruns the array or leaves it without terminator for the
  \<^verbatim>\<open>%s\<close> that follows: undefined behaviour, \<open>None\<close>.
\<close>

definition copy_field :: "nat \<Rightarrow> string \<Rightarrow> nat option \<Rightarrow> string option" where
  "copy_field cap start end_offset =
     (case end_offset of
        Some n \<Rightarrow> if n < cap then Some (take n start) else None
      | None \<Rightarrow> Some (take (cap - 1) start))"

text \<open>
  \<^verbatim>\<open>Handle_Client_Request\<close> adds 9 to \<^verbatim>\<open>strstr(rx_buffer, "password=")\<close> without
  a check: a request that has no \<^verbatim>\<open>password=\<close> makes it compute with a null pointer,
  which is \<open>None\<close> here as well.
\<close>

definition Handle_Client_Request :: "state \<Rightarrow> state option" where
  "Handle_Client_Request s =
     (if strstr (rx_string s) ''GET /?ssid='' \<noteq> None then
        (case (strstr (rx_string s) ''ssid='', strstr (rx_string s) ''password='') of
           (Some i, Some j) \<Rightarrow>
             let ssid_start = drop (i + 5) (rx_string s);
                 password_start = drop (j + 9) (rx_string s)
             in (case (copy_field 32 ssid_start (strstr ssid_start ''&''),
                       copy_field 64 password_start (strstr password_start '' '')) of
                   (Some ssid, Some password) \<Rightarrow>
                     let debug_msg = snprintf 128
                           (''SSID: '' @ ssid @ '', Password: '' @ password @ CRLF);
                         s = CDC_Transmit_FS debug_msg (length debug_msg) s;
                         s = HAL_Delay 10 s;
                         s = CDC_Transmit_FS (''Sending Connect to WiFi with SSID Command'' @ CRLF) 43 s;
                         s = HAL_Delay 10 s;
                         s = Clear_RX_Buffer s
                     in Some (Send_Connect_Request ssid password s)
                 | _ \<Rightarrow> None)
         | _ \<Rightarrow> None)
      else Some s)"

definition Log_Response_Status_Change :: "state \<Rightarrow> state" where
  "Log_Response_Status_Change s =
     (let s =
        (if response_status s = TIMEOUT then
           CDC_Transmit_FS (''Response status changed to: TIMEOUT'' @ CRLF @ CRLF) 39 s
         else if response_status s = SUCCESS then
           CDC_Transmit_FS (''Response status changed to: SUCCESS'' @ CRLF) 37 s
         else if response_status s = ERROR then
           CDC_Transmit_FS (''Response status changed to: ERROR'' @ CRLF) 35 s
         else if response_status s = WAITING then
           CDC_Transmit_FS (''Response status changed to: WAITING'' @ CRLF) 37 s
         else if response_status s = IDLE then
           CDC_Transmit_FS (''Response status changed to: IDLE'' @ CRLF @ CRLF) 36 s
         else s)
      in HAL_Delay 10 s)"

definition Has_Response_Finished :: "state \<Rightarrow> 8 word \<times> state" where
  "Has_Response_Finished s =
     (let s = (if has_response_changed s = 1 then
                 let s = Log_Response_Status_Change s
                 in s\<lparr>has_response_changed := 0\<rparr>
               else s)
      in if response_status s \<ge> TIMEOUT \<and> response_status s < WAITING then (1, s) else (0, s))"

text \<open>From the third branch on the source compares \<^verbatim>\<open>response_status\<close>, not the stage.\<close>

definition Log_Setup_Stage_Change :: "state \<Rightarrow> state" where
  "Log_Setup_Stage_Change s =
     (let s =
        (if setup_stage s = AT_TEST then
           CDC_Transmit_FS (''Setup stage changed to: AT_TEST'' @ CRLF) 33 s
         else if setup_stage s = AT_SET_CONNECT_MODE then
           CDC_Transmit_FS (''Setup stage changed to: AT_SET_CONNECT_MODE'' @ CRLF) 45 s
         else if response_status s = AT_SET_MAX_CONNECTIONS then
           CDC_Transmit_FS (''Setup stage changed to: AT_SET_MAX_CONNECTIONS'' @ CRLF) 48 s
         else if response_status s = AT_START_SERVER then
           CDC_Transmit_FS (''Setup stage changed to: AT_START_SERVER'' @ CRLF) 41 s
         else if response_status s = AT_SEND_HTML_HEADER then
           CDC_Transmit_FS (''Setup stage changed to: AT_SEND_HTML_HEADER'' @ CRLF) 45 s
         else if response_status s = AT_SEND_HTML then
           CDC_Transmit_FS (''Setup stage changed to: AT_SEND_HTML'' @ CRLF) 38 s
         else if response_status s = AT_SEND_CONNECT_REQUEST then
           CDC_Transmit_FS (''Setup stage changed to: AT_SEND_CONNECT_REQUEST'' @ CRLF) 49 s
         else s)
      in HAL_Delay 10 s)"

definition Set_Setup_Stage :: "8 word \<Rightarrow> state \<Rightarrow> state" where
  "Set_Setup_Stage new_stage s =
     (if new_stage < 0 \<or> new_stage > 6 then
        let s = CDC_Transmit_FS (''new_stage is invalid...'' @ CRLF) 25 s
        in HAL_Delay 10 s
      else
        let s = s\<lparr>setup_stage := new_stage\<rparr>
        in Log_Setup_Stage_Change s)"

definition Log_Uart_Response :: "state \<Rightarrow> state" where
  "Log_Uart_Response s =
     (let s = CDC_Transmit_FS (''===ESP_RESPONSE==='' @ CRLF) 20 s;
          s = HAL_Delay 10 s;
          s = CDC_Transmit_FS (rx_string s) (length (rx_string s)) s;
          s = HAL_Delay 10 s;
          s = CDC_Transmit_FS (''===ESP_RESPONSE_END==='' @ CRLF) 24 s
      in HAL_Delay 10 s)"

definition Handle_Response :: "state \<Rightarrow> state" where
  "Handle_Response s =
     (let s = (if response_status s = SUCCESS \<or> response_status s = ERROR then s
               else CDC_Transmit_FS (''=ESP_RESPONSE: TIMEOUT...'' @ CRLF) 27 s);
          s = HAL_Delay 10 s
      in if response_status s \<noteq> SUCCESS then
           let s = Clear_RX_Buffer s
           in Change_Response_Status IDLE s
         else
           let s =
             (if setup_stage s = AT_TEST then Set_Setup_Stage AT_SET_CONNECT_MODE s
              else if setup_stage s = AT_SET_CONNECT_MODE then Set_Setup_Stage AT_SET_MAX_CONNECTIONS s
              else if setup_stage s = AT_SET_MAX_CONNECTIONS then Set_Setup_Stage AT_START_SERVER s
              else if setup_stage s = AT_START_SERVER then Set_Setup_Stage AT_SEND_HTML_HEADER s
              else if setup_stage s = AT_SEND_HTML_HEADER then Set_Setup_Stage AT_SEND_HTML s
              else if setup_stage s = AT_SEND_HTML then Set_Setup_Stage AT_SEND_HTML_HEADER s
              else
                let s = CDC_Transmit_FS (''RESPONSE_NOT_IMPLEMENTED: Unknown Setup Stage'' @ CRLF) 47 s
                in HAL_Delay 10 s);
               s = Clear_RX_Buffer s
           in Change_Response_Status IDLE s)"

definition Log_Client_Status_Change :: "state \<Rightarrow> state" where
  "Log_Client_Status_Change s =
     (if was_client_connected s = is_client_connected s then s
      else
        let s = s\<lparr>was_client_connected := is_client_connected s\<rparr>;
            s = (if is_client_connected s \<noteq> 0 then
                   CDC_Transmit_FS (''HTTP: Client Connected'' @ CRLF) 24 s
                 else CDC_Transmit_FS (''HTTP: Client Disconnected'' @ CRLF) 27 s)
        in HAL_Delay 10 s)"

definition Log_Client_Request_Change :: "state \<Rightarrow> state" where
  "Log_Client_Request_Change s =
     (if was_client_requesting_page s = is_client_requesting_page s then s
      else
        let s = s\<lparr>was_client_requesting_page := is_client_requesting_page s\<rparr>;
            s = (if is_client_requesting_page s \<noteq> 0 then
                   CDC_Transmit_FS (''HTTP: Client Started Requesting Page'' @ CRLF) 38 s
                 else CDC_Transmit_FS (''HTTP: Client Stopped Requesting Page'' @ CRLF) 38 s)
        in HAL_Delay 10 s)"

text \<open>
  The last \<^verbatim>\<open>if\<close>/\<^verbatim>\<open>else if\<close> of \<^verbatim>\<open>Check_Reception_Completion\<close>, which turns the
  frame into a response status.
\<close>

definition classify_frame :: "state \<Rightarrow> state" where
  "classify_frame s =
     (if strstr (rx_string s) ''OK'' \<noteq> None then Change_Response_Status SUCCESS s
      else if strstr (rx_string s) ''ERROR'' \<noteq> None then Change_Response_Status ERROR s
      else s)"

text \<open>
  The parts of \<^verbatim>\<open>Check_Reception_Completion\<close> that run once \<^verbatim>\<open>"\r\n\r\n"\<close> is
  in the buffer: the debug output, and the two \<^verbatim>\<open>if\<close>/\<^verbatim>\<open>else if\<close> for the client
  flags.
\<close>

definition log_reception :: "state \<Rightarrow> state" where
  "log_reception s =
     (let s = CDC_Transmit_FS (''===Data Reception Complete==='' @ CRLF) 31 s;
          s = HAL_Delay 10 s;
          debug_info = snprintf 50 (''Buffer length: '' @ show_nat (length (rx_string s)) @ CRLF);
          s = CDC_Transmit_FS debug_info (length debug_info) s;
          s = HAL_Delay 10 s
      in if length (rx_string s) > 0 then
           let s = Log_Uart_Response s in HAL_Delay 10 s
         else
           let s = CDC_Transmit_FS (''<Empty Buffer>'' @ CRLF) 16 s in HAL_Delay 10 s)"

definition update_client_flags :: "state \<Rightarrow> state" where
  "update_client_flags s =
     (let s = (if strstr (rx_string s) ''+STA_CONNECTED'' \<noteq> None then
                 s\<lparr>is_client_connected := 1\<rparr>
               else if strstr (rx_string s) ''+STA_DISCONNECTED'' \<noteq> None then
                 s\<lparr>is_client_connected := 0\<rparr>
               else s)
      in if strstr (rx_string s) ''0,CONNECT'' \<noteq> None then
           s\<lparr>is_client_requesting_page := 1\<rparr>
         else if strstr (rx_string s) ''0,CLOSED'' \<noteq> None then
           s\<lparr>is_client_requesting_page := 0\<rparr>
         else s)"

definition Check_Reception_Completion :: "state \<Rightarrow> state option" where
  "Check_Reception_Completion s =
     (if strstr (rx_string s) (CRLF @ CRLF) \<noteq> None then
        let s = s\<lparr>receiving_data := 0\<rparr>;
            s = log_reception s
        in case (if strstr (rx_string s) ''GET /?ssid='' \<noteq> None then Handle_Client_Request s
                 else Some s) of
             None \<Rightarrow> None
           | Some s \<Rightarrow>
               let s = update_client_flags s;
                   s = classify_frame s
               in Some (Clear_RX_Buffer s)
      else Some s)"

section \<open>Connecting to the server\<close>

text \<open>
  The loop of \<^verbatim>\<open>Establish_Connection\<close> polls without a delay. Between two polls that
  see the same buffer nothing changes, so the model lets one tick pass per iteration.
  The flag of the result says that the loop has returned from the function.
\<close>

definition busy_wait_tick :: "state \<Rightarrow> state" where
  "busy_wait_tick s = HAL_Delay 1 s"

function wait_connect :: "32 word \<Rightarrow> state \<Rightarrow> bool \<times> state" where
  "wait_connect start_time s =
     (if (HAL_GetTick s - start_time) < 5000 then
        (if strstr (rx_string s) ''CONNECT'' \<noteq> None then
           let s = CDC_Transmit_FS (''TCP connection established'' @ LF) 26 s;
               s = Change_Response_Status SUCCESS s
           in (True, Clear_RX_Buffer s)
         else if strstr (rx_string s) ''ERROR'' \<noteq> None \<or> strstr (rx_string s) ''CLOSED'' \<noteq> None then
           let s = CDC_Transmit_FS (''TCP connection failed'' @ LF) 23 s;
               s = Change_Response_Status ERROR s
           in (True, Clear_RX_Buffer s)
         else wait_connect start_time (busy_wait_tick s))
      else (False, s))"
  by pat_completeness auto
termination
proof (relation "measure (\<lambda>(start_time, s). 5000 - unat (uwTick s - start_time))", goal_cases)
  case 1
  show ?case by simp
next
  case (2 start_time s)
  define x where "x = uwTick s - start_time"
  have "x < 5000" using 2 by (simp add: x_def HAL_GetTick_def)
  then have "unat x < 5000" by (simp add: word_less_nat_alt)
  then have "unat (x + 1) = unat x + 1" by (simp add: unat_word_ariths)
  moreover have "uwTick (busy_wait_tick s) - start_time = x + 1"
    by (simp add: busy_wait_tick_def HAL_Delay_def x_def)
  ultimately have "unat (uwTick (busy_wait_tick s) - start_time) = unat x + 1" by simp
  with \<open>unat x < 5000\<close> show ?case unfolding x_def by simp
qed

declare wait_connect.simps [simp del]

definition Establish_Connection :: "string \<Rightarrow> 16 word \<Rightarrow> state \<Rightarrow> state" where
  "Establish_Connection server_ip port s =
     (let s = Send_Command (''AT+CIPCLOSE=0'' @ CRLF) s;
          s = HAL_Delay 100 s;
          s = Clear_RX_Buffer s;
          cmd = snprintf 128
                  (''AT+CIPSTART=0,'' @ DQ @ ''TCP'' @ DQ @ '','' @ DQ @ server_ip @ DQ @ '','' @
                   show_nat (unat port) @ CRLF);
          s = Send_Command cmd s
      in case wait_connect (HAL_GetTick s) s of
           (True, s) \<Rightarrow> s
         | (False, s) \<Rightarrow>
             let s = CDC_Transmit_FS (''Connection attempt timed out'' @ LF) 29 s;
                 s = Change_Response_Status TIMEOUT s
             in Clear_RX_Buffer s)"

section \<open>The foreground loop\<close>

text \<open>\<^verbatim>\<open>main\<close> only calls it with \<^verbatim>\<open>(transmission_mode + 1) % 5\<close>, an index of the table.\<close>

definition Indicate_Transmission_Mode :: "8 word \<Rightarrow> state \<Rightarrow> state" where
  "Indicate_Transmission_Mode mode s =
     (let modes = [''None'', ''Binary UART'', ''ASCII UART'', ''Binary CDC'', ''ASCII CDC''];
          debug_msg = snprintf 50 (''Mode changed to: '' @ modes ! unat mode @ LF)
      in CDC_Transmit_FS debug_msg (length debug_msg) s)"

text \<open>The statements of the \<^verbatim>\<open>while (1)\<close> body of \<^verbatim>\<open>main\<close>, in their order.\<close>

definition main_timeout_step :: "state \<Rightarrow> state" where
  "main_timeout_step s =
     (if Is_Timedout 5000 s = 1 \<and> response_status s = WAITING then Change_Response_Status TIMEOUT s
      else s)"

definition main_send_request_step :: "state \<Rightarrow> state" where
  "main_send_request_step s =
     (if response_status s = SEND_REQUEST then Configure_ESP_As_Access_Point s else s)"

definition main_button_step :: "state \<Rightarrow> state" where
  "main_button_step s =
     (if button_action_pending s \<noteq> 0 then
        let s = (if button_action_type s = 0 then Change_Response_Status SEND_REQUEST s
                 else
                   let s = s\<lparr>transmission_mode := of_nat ((unat (transmission_mode s) + 1) mod 5)\<rparr>
                   in Indicate_Transmission_Mode (transmission_mode s) s)
        in s\<lparr>button_action_pending := 0\<rparr>
      else s)"

definition main_connect_step :: "state \<Rightarrow> state" where
  "main_connect_step s =
     (if connection_established s = 0 \<and> transmission_mode s = MODE_ASCII_UART then
        let s = CDC_Transmit_FS (''Attempting to connect...'' @ LF) 25 s;
            s = Establish_Connection ''172.20.10.11'' 5000 s
        in if response_status s = SUCCESS then
             let s = CDC_Transmit_FS (''Connection successful!'' @ LF) 24 s
             in s\<lparr>connection_established := 1\<rparr>
           else if response_status s = TIMEOUT \<or> response_status s = ERROR then
             let s = CDC_Transmit_FS (''Connection failed, retrying...'' @ LF) 31 s
             in HAL_Delay 1000 s
           else s
      else s)"

definition main_sensor_step :: "state \<Rightarrow> state" where
  "main_sensor_step s =
     (if connection_established s \<noteq> 0 then
        let s = (if data_ready_mag s \<noteq> 0 then Handle_Magnetometer s else s);
            s = (if data_ready_acc s \<noteq> 0 then Handle_Accelerometer s else s)
        in if data_ready_gyr s \<noteq> 0 then Handle_Gyroscope s else s
      else s)"

definition main_loop_body :: "state \<Rightarrow> state option" where
  "main_loop_body s =
     (let s = Log_Client_Status_Change s;
          s = Log_Client_Request_Change s
      in case Check_Reception_Completion s of
           None \<Rightarrow> None
         | Some s \<Rightarrow>
             let (finished, s) = Has_Response_Finished s;
                 s = (if finished = 1 then Handle_Response s else s);
                 s = main_timeout_step s;
                 s = main_send_request_step s;
                 s = main_button_step s;
                 s = main_connect_step s
             in Some (main_sensor_step s))"

text \<open>
  A run of the loop: after each iteration the ticks given for it pass (the iteration's own
  duration, during which interrupts are served). \<open>None\<close> is undefined behaviour met on
  the way.
\<close>

fun main_loop :: "nat list \<Rightarrow> state \<Rightarrow> state option" where
  "main_loop [] s = Some s"
| "main_loop (period # periods) s =
     (case main_loop_body s of
        None \<Rightarrow> None
      | Some s \<Rightarrow> main_loop periods (HAL_Delay period s))"

text \<open>
  The state in which \<^verbatim>\<open>main\<close> enters the loop: the globals with their initialisers, the
  reception armed at \<^verbatim>\<open>&rx_buffer[0]\<close>, the trace started afresh. The parameters are the
  tick reached by then and the environment.
\<close>

definition loop_entry ::
  "32 word \<Rightarrow> (nat \<times> irq) list \<Rightarrow> (8 word \<Rightarrow> 32 word \<Rightarrow> 16 word \<times> 16 word \<times> 16 word) \<Rightarrow>
   (rat \<Rightarrow> string) \<Rightarrow> state" where
  "loop_entry tick irqs samples f3 =
     \<lparr>data_ready_mag = 0, data_ready_acc = 0, data_ready_gyr = 0, packet_number = 0,
      transmission_mode = MODE_NONE, rx_buffer = (\<lambda>i. NUL), rx_index = 0,
      button_press_start = 0, button_pressed = 0, button_action_pending = 0,
      button_action_type = 0, setup_stage = AT_TEST, response_status = IDLE,
      has_response_changed = 0, tick_when_sent = 0, is_client_connected = 0,
      was_client_connected = 0, is_client_requesting_page = 0, was_client_requesting_page = 0,
      connection_established = 0, receiving_data = 0, ascii_last_send_time = 0,
      server_last_send_time = 0, uwTick = tick, uart_rx_ptr = Some 0, pending = irqs,
      sensor_sample = samples, printf_f3 = f3, trace = []\<rparr>"


section \<open>Notions used by the properties\<close>

text \<open>
  What happens to the receive buffer: an interrupt stores a byte, or the foreground resets
  the buffer (\<^verbatim>\<open>Clear_RX_Buffer\<close> is the only foreground code that writes the buffer or
  its index).
\<close>

datatype rx_event = Rx_Byte char | Rx_Reset

fun rx_step :: "rx_event \<Rightarrow> state \<Rightarrow> state" where
  "rx_step (Rx_Byte c) s = USART2_IRQHandler c s"
| "rx_step Rx_Reset s = Clear_RX_Buffer s"

fun rx_run :: "rx_event list \<Rightarrow> state \<Rightarrow> state" where
  "rx_run [] s = s"
| "rx_run (e # es) s = rx_run es (rx_step e s)"

text \<open>
  The index is at most \<^verbatim>\<open>RX_BUFFER_SIZE - 2\<close>, the byte after the next free place is
  \<^verbatim>\<open>\0\<close>, and the reception is armed at the index.
\<close>

definition rx_inv :: "state \<Rightarrow> bool" where
  "rx_inv s \<longleftrightarrow>
     unat (rx_index s) \<le> RX_BUFFER_SIZE - 2 \<and>
     rx_buffer s (unat (rx_index s) + 1) = NUL \<and>
     uart_rx_ptr s = Some (unat (rx_index s))"

text \<open>A concrete environment for the examples: a sensor at rest, a fixed float text.\<close>

definition zero_sample :: "8 word \<Rightarrow> 32 word \<Rightarrow> 16 word \<times> 16 word \<times> 16 word" where
  "zero_sample device tick = (0, 0, 0)"

definition fixed_f3 :: "rat \<Rightarrow> string" where
  "fixed_f3 r = ''0.000''"

definition boot :: state where
  "boot = loop_entry 0 [] zero_sample fixed_f3"

text \<open>The texts sent to the modem, in order.\<close>

fun uart_sent :: "io list \<Rightarrow> string list" where
  "uart_sent [] = []"
| "uart_sent (Uart_Tx cs # t) = cs # uart_sent t"
| "uart_sent (e # t) = uart_sent t"

text \<open>
  The command \<^verbatim>\<open>Configure_ESP_As_Access_Point\<close> sends in each case of its switch, as it
  goes over the wire (\<^verbatim>\<open>strlen\<close> drops the literal's trailing \<^verbatim>\<open>\0\<close>); the default
  case sends none.
\<close>

definition stage_command :: "8 word \<Rightarrow> string list" where
  "stage_command stage =
     (if stage = AT_TEST then [''AT'' @ CRLF]
      else if stage = AT_SET_CONNECT_MODE then [''AT+CWMODE=3'' @ CRLF]
      else if stage = AT_SET_MAX_CONNECTIONS then [''AT+CIPMUX=1'' @ CRLF]
      else if stage = AT_START_SERVER then [''AT+CIPSERVER=1,80'' @ CRLF]
      else if stage = AT_SEND_HTML_HEADER then [''AT+CIPSEND=0,334'' @ CRLF]
      else if stage = AT_SEND_HTML then [html_page2]
      else [])"


text \<open>
  The modem sends a text: its first byte after \<open>gap\<close> ticks, the others right behind.
\<close>

fun modem_text :: "nat \<Rightarrow> string \<Rightarrow> (nat \<times> irq) list" where
  "modem_text gap [] = []"
| "modem_text gap (c # cs) = (gap, USART2_RXNE c) # modem_text 0 cs"

text \<open>
  Two environments for \<^verbatim>\<open>Send_Data_To_Server\<close> called at tick 1000: a modem that
  answers each status query with \<^verbatim>\<open>STATUS:4\<close>, and a modem that gives the prompt and
  then acknowledges the data.
\<close>

definition status4_state :: state where
  "status4_state =
     loop_entry 1000 (modem_text 20 ''STATUS:4'' @ modem_text 100 ''STATUS:4'') zero_sample fixed_f3"

definition send_ok_state :: state where
  "send_ok_state =
     loop_entry 1000 (modem_text 150 ''>'' @ modem_text 205 ''SEND OK'') zero_sample fixed_f3"



text \<open>
  A property of the connection flag and the trace, read off a state; and what makes such
  a property survive a text going out, a change of the flag, any event going out.
\<close>

definition sat :: "(8 word \<times> io list \<Rightarrow> bool) \<Rightarrow> state \<Rightarrow> bool" where
  "sat Q s \<longleftrightarrow> Q (connection_established s, trace s)"

definition text_closed :: "(8 word \<times> io list \<Rightarrow> bool) \<Rightarrow> bool" where
  "text_closed Q \<longleftrightarrow>
     (\<forall>c t b. Q (c, t) \<longrightarrow> Q (c, t @ [Cdc_Tx b])) \<and>
     (\<forall>c t b. Q (c, t) \<longrightarrow> Q (c, t @ [Uart_Tx b]))"

definition conn_free :: "(8 word \<times> io list \<Rightarrow> bool) \<Rightarrow> bool" where
  "conn_free Q \<longleftrightarrow> (\<forall>c c' t. Q (c, t) \<longrightarrow> Q (c', t))"

definition append_closed :: "(8 word \<times> io list \<Rightarrow> bool) \<Rightarrow> bool" where
  "append_closed Q \<longleftrightarrow> (\<forall>c t e. Q (c, t) \<longrightarrow> Q (c, t @ [e]))"

text \<open>
  The events only a sensor handler produces: each handler starts with a bus read, and the
  binary packets are sent by handlers alone.
\<close>

fun is_sensor_io :: "io \<Rightarrow> bool" where
  "is_sensor_io (I2c_Read device reg len) = True"
| "is_sensor_io (Spi_Read reg len) = True"
| "is_sensor_io (Uart_Tx_Bin bs) = True"
| "is_sensor_io (Cdc_Tx_Bin bs) = True"
| "is_sensor_io (Cdc_Tx cs) = False"
| "is_sensor_io (Uart_Tx cs) = False"

text \<open>
  What \<^verbatim>\<open>main\<close> prints when \<^verbatim>\<open>Establish_Connection\<close> has left the status
  \<^verbatim>\<open>SUCCESS\<close>, just before it sets \<^verbatim>\<open>connection_established\<close> (24 bytes: the text and
  its terminator).
\<close>

definition connected_msg :: io where
  "connected_msg = Cdc_Tx (''Connection successful!'' @ LF @ [NUL])"

text \<open>No sensor event comes before the first such message.\<close>

fun no_sample_before_connect :: "io list \<Rightarrow> bool" where
  "no_sample_before_connect [] = True"
| "no_sample_before_connect (e # t) =
     (e = connected_msg \<or> \<not> is_sensor_io e \<and> no_sample_before_connect t)"

definition before_connect :: "8 word \<times> io list \<Rightarrow> bool" where
  "before_connect = (\<lambda>(c, t). c = 0 \<and> list_all (\<lambda>e. \<not> is_sensor_io e) t)"

definition after_connect :: "8 word \<times> io list \<Rightarrow> bool" where
  "after_connect = (\<lambda>(c, t). connected_msg \<in> set t \<and> no_sample_before_connect t)"

text \<open>The binary packets sent to the modem, and those sent to the USB port.\<close>

fun uart_packets :: "io list \<Rightarrow> 8 word list list" where
  "uart_packets [] = []"
| "uart_packets (Uart_Tx_Bin bs # t) = bs # uart_packets t"
| "uart_packets (e # t) = uart_packets t"

fun cdc_packets :: "io list \<Rightarrow> 8 word list list" where
  "cdc_packets [] = []"
| "cdc_packets (Cdc_Tx_Bin bs # t) = bs # cdc_packets t"
| "cdc_packets (e # t) = cdc_packets t"

definition packets_are :: "8 word list list \<Rightarrow> 8 word list list \<Rightarrow> 8 word \<times> io list \<Rightarrow> bool" where
  "packets_are us cs = (\<lambda>(c, t). uart_packets t = us \<and> cdc_packets t = cs)"

text \<open>
  A run of the whole loop from its entry at tick 200. The button is held for 600 ticks six
  times; after the second long press the modem answers the connect command with
  \<^verbatim>\<open>0,CONNECT\<close>; after the sixth the accelerometer raises its data-ready line.
\<close>

definition long_press :: "nat \<Rightarrow> (nat \<times> irq) list" where
  "long_press gap = [(gap, EXTI GPIO_PIN_0 True), (600, EXTI GPIO_PIN_0 False)]"

definition demo_irqs :: "(nat \<times> irq) list" where
  "demo_irqs =
     long_press 0 @ long_press 150 @ modem_text 160 ''0,CONNECT'' @ long_press 100 @
     long_press 100 @ long_press 100 @ long_press 100 @ [(10, EXTI GPIO_PIN_4 False)]"

definition demo_state :: state where
  "demo_state = loop_entry 200 demo_irqs zero_sample fixed_f3"

definition demo_periods :: "nat list" where
  "demo_periods = [700, 700, 700, 700, 700, 700, 0]"

text \<open>No interrupt request falls due within the next \<open>d\<close> ticks.\<close>

definition idle_for :: "nat \<Rightarrow> state \<Rightarrow> bool" where
  "idle_for d s = (case pending s of [] \<Rightarrow> True | (gap, e) # rest \<Rightarrow> d < gap)"

text \<open>
  The stage, the status, and the texts sent to the modem so far: how far the provisioning
  has got.
\<close>

definition progress :: "state \<Rightarrow> 8 word \<times> 8 word \<times> string list" where
  "progress s = (setup_stage s, response_status s, uart_sent (trace s))"

text \<open>
  An interrupt request of a sensor's data-ready line: neither a byte of the modem nor an
  edge of the button. An environment is calm when only such requests are still to come.
\<close>

fun sensor_irq :: "irq \<Rightarrow> bool" where
  "sensor_irq (USART2_RXNE c) = False"
| "sensor_irq (EXTI pin level) = (pin \<noteq> GPIO_PIN_0)"

definition calm :: "state \<Rightarrow> bool" where
  "calm s = list_all sensor_irq (map snd (pending s))"

text \<open>
  Nothing stands in the way of a short press: the environment is calm, the receive buffer
  holds no complete frame, the button's pending flag is \<open>bp\<close> and its action is the short
  one, and the mode is not \<^verbatim>\<open>MODE_ASCII_UART\<close>.
\<close>

definition undisturbed :: "8 word \<Rightarrow> state \<Rightarrow> bool" where
  "undisturbed bp s \<longleftrightarrow>
     calm s \<and> strstr (rx_string s) (CRLF @ CRLF) = None \<and> button_action_pending s = bp \<and>
     button_action_type s = 0 \<and> transmission_mode s \<noteq> MODE_ASCII_UART"

text \<open>The start-server command has timed out, and a short press is pending.\<close>

definition timed_out :: state where
  "timed_out = boot\<lparr>setup_stage := AT_START_SERVER, response_status := TIMEOUT,
                      button_action_pending := 1\<rparr>"

text \<open>
  A run of the loop from its entry at tick 0, over seven iterations. A short press makes
  the loop send \<^verbatim>\<open>AT\<close>; the modem stays silent for more than 5000 ticks, and the loop
  sets and handles the timeout; only then the modem's \<^verbatim>\<open>OK\<close> arrives, and after it a
  second short press.
\<close>

definition short_press :: "nat \<Rightarrow> (nat \<times> irq) list" where
  "short_press gap = [(gap, EXTI GPIO_PIN_0 True), (10, EXTI GPIO_PIN_0 False)]"

definition late_irqs :: "(nat \<times> irq) list" where
  "late_irqs = short_press 10 @ modem_text 5280 (''OK'' @ CRLF @ CRLF) @ short_press 20"

definition late_state :: state where
  "late_state = loop_entry 0 late_irqs zero_sample fixed_f3"

definition late_periods :: "nat list" where
  "late_periods = [200, 1, 5000, 1, 100, 1, 1]"

section \<open>Properties\<close>

subsection \<open>Interrupts and delays leave the foreground's variables alone\<close>

lemma isr_keeps:
  "setup_stage (isr e s) = setup_stage s"
  "response_status (isr e s) = response_status s"
  "has_response_changed (isr e s) = has_response_changed s"
  "tick_when_sent (isr e s) = tick_when_sent s"
  "trace (isr e s) = trace s"
  "connection_established (isr e s) = connection_established s"
  "packet_number (isr e s) = packet_number s"
  "transmission_mode (isr e s) = transmission_mode s"
  "server_last_send_time (isr e s) = server_last_send_time s"
  by (cases e; simp add: USART2_IRQHandler_def HAL_UART_RxCpltCallback_def
      HAL_UART_Receive_IT_def HAL_GPIO_EXTI_Callback_def Let_def split: option.split)+

lemma deliver_keeps:
  "setup_stage (deliver d p s) = setup_stage s \<and>
   response_status (deliver d p s) = response_status s \<and>
   has_response_changed (deliver d p s) = has_response_changed s \<and>
   tick_when_sent (deliver d p s) = tick_when_sent s \<and>
   trace (deliver d p s) = trace s \<and>
   connection_established (deliver d p s) = connection_established s \<and>
   packet_number (deliver d p s) = packet_number s \<and>
   transmission_mode (deliver d p s) = transmission_mode s \<and>
   server_last_send_time (deliver d p s) = server_last_send_time s"
  by (induction p arbitrary: d s) (auto simp: isr_keeps)

lemma HAL_Delay_keeps [simp]:
  "setup_stage (HAL_Delay d s) = setup_stage s"
  "response_status (HAL_Delay d s) = response_status s"
  "has_response_changed (HAL_Delay d s) = has_response_changed s"
  "tick_when_sent (HAL_Delay d s) = tick_when_sent s"
  "trace (HAL_Delay d s) = trace s"
  "connection_established (HAL_Delay d s) = connection_established s"
  "packet_number (HAL_Delay d s) = packet_number s"
  "transmission_mode (HAL_Delay d s) = transmission_mode s"
  "server_last_send_time (HAL_Delay d s) = server_last_send_time s"
  "uwTick (HAL_Delay d s) = uwTick s + of_nat d"
  by (simp_all add: HAL_Delay_def deliver_keeps)

lemmas prim_defs = CDC_Transmit_FS_def HAL_UART_Transmit_def HAL_UART_Receive_IT_def
  HAL_UART_AbortReceive_IT_def Clear_RX_Buffer_def Change_Response_Status_def HAL_GetTick_def

subsection \<open>Binary packing\<close>

lemma ff_mask: "(0xFF :: 32 word) = mask 8"
  by (simp add: mask_eq_exp_minus_1)

lemma le16_unsigned:
  "le16 (ucast ((ucast h :: 32 word) AND 0xFF)) (ucast (drop_bit 8 (ucast h :: 32 word) AND 0xFF))
     = (h :: 16 word)"
  unfolding le16_def ff_mask
  by (rule bit_word_eqI) (auto simp add: bit_simps)

lemma le16_signed:
  "le16 (ucast ((scast h :: 32 word) AND 0xFF))
        (ucast (signed_drop_bit 8 (scast h :: 32 word) AND 0xFF))
     = (h :: 16 word)"
  unfolding le16_def ff_mask
  by (rule bit_word_eqI) (auto simp add: bit_simps)

text \<open>
  C7. \<^verbatim>\<open>Pack_Data\<close> writes ten bytes; read back as five little-endian 16-bit fields they
  are the header, the packet number and the three axis values (as bit patterns, hence
  also as signed numbers).
\<close>

theorem pack_data_roundtrip:
  "length (Pack_Data header x y z s) = 10 \<and>
   le16 (Pack_Data header x y z s ! 0) (Pack_Data header x y z s ! 1) = header \<and>
   le16 (Pack_Data header x y z s ! 2) (Pack_Data header x y z s ! 3) = packet_number s \<and>
   le16 (Pack_Data header x y z s ! 4) (Pack_Data header x y z s ! 5) = x \<and>
   le16 (Pack_Data header x y z s ! 6) (Pack_Data header x y z s ! 7) = y \<and>
   le16 (Pack_Data header x y z s ! 8) (Pack_Data header x y z s ! 9) = z \<and>
   sint (le16 (Pack_Data header x y z s ! 4) (Pack_Data header x y z s ! 5)) = sint x \<and>
   sint (le16 (Pack_Data header x y z s ! 6) (Pack_Data header x y z s ! 7)) = sint y \<and>
   sint (le16 (Pack_Data header x y z s ! 8) (Pack_Data header x y z s ! 9)) = sint z"
  by (simp add: Pack_Data_def le16_unsigned le16_signed)

subsection \<open>Values outside the enumerations\<close>

text \<open>
  C6. A status above 5 leaves the whole state as it was (so \<^verbatim>\<open>response_status\<close> and
  \<^verbatim>\<open>has_response_changed\<close> keep their values); a stage above 6 leaves
  \<^verbatim>\<open>setup_stage\<close> as it was. The parameters are \<^verbatim>\<open>uint8_t\<close>, so no value is below 0.
\<close>

theorem invalid_values_rejected:
  "(5 < new_status \<longrightarrow> Change_Response_Status new_status s = s) \<and>
   (6 < new_stage \<longrightarrow> setup_stage (Set_Setup_Stage new_stage s) = setup_stage s)"
  by (simp add: Change_Response_Status_def Set_Setup_Stage_def CDC_Transmit_FS_def)

theorem invalid_values_rejected_witness:
  "(5 :: 8 word) < 6 \<and> Change_Response_Status 6 boot = boot \<and>
   (6 :: 8 word) < 7 \<and> setup_stage (Set_Setup_Stage 7 boot) = setup_stage boot"
  using invalid_values_rejected [of 6 boot 7] by simp

subsection \<open>The provisioning table\<close>

lemma Set_Setup_Stage_valid:
  "new_stage \<le> 6 \<Longrightarrow> setup_stage (Set_Setup_Stage new_stage s) = new_stage"
  by (auto simp add: Set_Setup_Stage_def Log_Setup_Stage_Change_def CDC_Transmit_FS_def Let_def)

lemma Set_Setup_Stage_status [simp]:
  "response_status (Set_Setup_Stage new_stage s) = response_status s"
  by (auto simp add: Set_Setup_Stage_def Log_Setup_Stage_Change_def CDC_Transmit_FS_def Let_def)

text \<open>
  C1, as the code has it. With status \<^verbatim>\<open>SUCCESS\<close>, \<^verbatim>\<open>Handle_Response\<close> moves the stage
  along the four set-up steps up to the header stage; from the header stage it goes to the
  page stage and from the page stage back to the header stage, a cycle of two stages. The
  connect-request stage has no case and stays.
\<close>

theorem handle_response_success_table:
  assumes "response_status s = SUCCESS"
  shows "setup_stage (Handle_Response s) =
           (if setup_stage s = AT_TEST then AT_SET_CONNECT_MODE
            else if setup_stage s = AT_SET_CONNECT_MODE then AT_SET_MAX_CONNECTIONS
            else if setup_stage s = AT_SET_MAX_CONNECTIONS then AT_START_SERVER
            else if setup_stage s = AT_START_SERVER then AT_SEND_HTML_HEADER
            else if setup_stage s = AT_SEND_HTML_HEADER then AT_SEND_HTML
            else if setup_stage s = AT_SEND_HTML then AT_SEND_HTML_HEADER
            else setup_stage s)"
  using assms
  by (simp add: Handle_Response_def Let_def prim_defs Set_Setup_Stage_valid)

theorem handle_response_success_table_witness:
  "response_status (boot\<lparr>response_status := SUCCESS\<rparr>) = SUCCESS \<and>
   setup_stage (boot\<lparr>response_status := SUCCESS\<rparr>) = AT_TEST \<and>
   setup_stage (Handle_Response (boot\<lparr>response_status := SUCCESS\<rparr>)) = AT_SET_CONNECT_MODE"
  using handle_response_success_table [of "boot\<lparr>response_status := SUCCESS\<rparr>"]
  by (simp add: boot_def loop_entry_def)

text \<open>
  C1 as stated fails on the last part: neither the header stage nor the page stage is
  its own successor under \<^verbatim>\<open>SUCCESS\<close>.
\<close>

theorem header_stage_self_loop_counterexample:
  "setup_stage (Handle_Response (boot\<lparr>setup_stage := AT_SEND_HTML_HEADER, response_status := SUCCESS\<rparr>))
     \<noteq> AT_SEND_HTML_HEADER \<and>
   setup_stage (Handle_Response (boot\<lparr>setup_stage := AT_SEND_HTML, response_status := SUCCESS\<rparr>))
     \<noteq> AT_SEND_HTML"
  by (simp add: Handle_Response_def Let_def prim_defs Set_Setup_Stage_valid boot_def loop_entry_def)

subsection \<open>What a command puts on the wire\<close>

lemma uart_sent_append [simp]: "uart_sent (t @ u) = uart_sent t @ uart_sent u"
  by (induction t rule: uart_sent.induct) simp_all

lemma take_c_str: "take (length (c_str cmd)) (cmd @ [NUL]) = c_str cmd"
proof -
  have "length (c_str cmd) \<le> length cmd"
    by (simp add: c_str_def length_takeWhile_le)
  moreover have "take (length (c_str cmd)) cmd = c_str cmd"
    unfolding c_str_def by (rule takeWhile_eq_take [symmetric])
  ultimately show ?thesis by simp
qed

lemma Send_Command_sent:
  "uart_sent (trace (Send_Command cmd s)) = uart_sent (trace s) @ [c_str cmd]"
  by (simp add: Send_Command_def Let_def prim_defs take_c_str del: take_append)

lemma Send_Command_stage [simp]: "setup_stage (Send_Command cmd s) = setup_stage s"
  by (simp add: Send_Command_def Let_def prim_defs)

lemma c_str_html: "c_str html_page2 = html_page2"
  by (simp add: c_str_def html_page2_def)

lemma Configure_sent:
  "uart_sent (trace (Configure_ESP_As_Access_Point s))
     = uart_sent (trace s) @ stage_command (setup_stage s)"
  by (simp add: Configure_ESP_As_Access_Point_def Send_HTML_Header_def Let_def Send_Command_sent
      stage_command_def CDC_Transmit_FS_def c_str_html) (simp add: c_str_def)

subsection \<open>The receive buffer\<close>

lemma rx_inv_callback: "rx_inv (HAL_UART_RxCpltCallback True (s\<lparr>uart_rx_ptr := None\<rparr>))"
  by (simp add: rx_inv_def HAL_UART_RxCpltCallback_def HAL_UART_Receive_IT_def Let_def
      RX_BUFFER_SIZE_def) (auto simp add: unat_word_ariths)

lemma rx_inv_step: "rx_inv s \<Longrightarrow> rx_inv (rx_step e s)"
proof (cases e)
  case (Rx_Byte c)
  assume inv: "rx_inv s"
  then obtain p where p: "uart_rx_ptr s = Some p" by (auto simp: rx_inv_def)
  have "rx_step e s = HAL_UART_RxCpltCallback True
                        ((s\<lparr>rx_buffer := (rx_buffer s)(p := c)\<rparr>)\<lparr>uart_rx_ptr := None\<rparr>)"
    using Rx_Byte p by (simp add: USART2_IRQHandler_def)
  then show ?thesis by (simp only: rx_inv_callback)
next
  case Rx_Reset
  then show ?thesis
    by (simp add: rx_inv_def prim_defs Let_def memset_rx_buffer_def RX_BUFFER_SIZE_def)
qed

lemma rx_inv_run: "rx_inv s \<Longrightarrow> rx_inv (rx_run es s)"
  by (induction es arbitrary: s) (simp_all add: rx_inv_step)

lemma rx_inv_entry: "rx_inv (loop_entry tick irqs samples f3)"
  by (simp add: rx_inv_def loop_entry_def RX_BUFFER_SIZE_def)

lemma rx_string_reset: "rx_string (Clear_RX_Buffer s) = []"
  by (simp add: rx_string_def prim_defs Let_def memset_rx_buffer_def RX_BUFFER_SIZE_def
      string_at.simps)

text \<open>
  C3. From the loop's entry state, after any sequence of received bytes and buffer
  resets the index is at most \<^verbatim>\<open>RX_BUFFER_SIZE - 2\<close>, the byte behind the next free
  place is \<^verbatim>\<open>\0\<close> (so the buffer holds a terminated string) and the reception is armed
  at the index. A byte that arrives with the index at \<^verbatim>\<open>RX_BUFFER_SIZE - 2\<close> sets the
  index to 0 and writes \<^verbatim>\<open>\0\<close> at place 1. A reset sets the index to 0 and leaves the
  empty string.
\<close>

theorem receive_buffer_invariant:
  "rx_inv (rx_run events (loop_entry tick irqs samples f3)) \<and>
   rx_index (USART2_IRQHandler c (s\<lparr>rx_index := of_nat (RX_BUFFER_SIZE - 2),
                                     uart_rx_ptr := Some (RX_BUFFER_SIZE - 2)\<rparr>)) = 0 \<and>
   rx_buffer (USART2_IRQHandler c (s\<lparr>rx_index := of_nat (RX_BUFFER_SIZE - 2),
                                      uart_rx_ptr := Some (RX_BUFFER_SIZE - 2)\<rparr>)) 1 = NUL \<and>
   rx_index (Clear_RX_Buffer s) = 0 \<and> rx_string (Clear_RX_Buffer s) = []"
proof -
  have "rx_inv (rx_run events (loop_entry tick irqs samples f3))"
    by (rule rx_inv_run [OF rx_inv_entry])
  moreover have "rx_index (Clear_RX_Buffer s) = 0"
    by (simp add: prim_defs Let_def)
  ultimately show ?thesis
    by (simp add: rx_string_reset USART2_IRQHandler_def HAL_UART_RxCpltCallback_def
        HAL_UART_Receive_IT_def Let_def RX_BUFFER_SIZE_def)
qed

subsection \<open>The response timeout\<close>

text \<open>
  C4 as stated fails at the boundary: 5000 ticks after the command was sent the status is
  still \<^verbatim>\<open>WAITING\<close> after the loop's timeout statement, because \<^verbatim>\<open>Is_Timedout\<close>
  compares with \<^verbatim>\<open>>\<close>.
\<close>

theorem timeout_at_5000_counterexample:
  "uwTick (HAL_Delay 5000 (Send_Command (''AT'' @ CRLF) boot))
     - tick_when_sent (HAL_Delay 5000 (Send_Command (''AT'' @ CRLF) boot)) = 5000 \<and>
   response_status (HAL_Delay 5000 (Send_Command (''AT'' @ CRLF) boot)) = WAITING \<and>
   response_status (main_timeout_step (HAL_Delay 5000 (Send_Command (''AT'' @ CRLF) boot)))
     \<noteq> TIMEOUT"
  by (simp add: main_timeout_step_def Is_Timedout_def Send_Command_def Let_def prim_defs
      boot_def loop_entry_def)

text \<open>
  C4, as the code has it. While the status is \<^verbatim>\<open>WAITING\<close>, the loop's timeout statement
  sets it to \<^verbatim>\<open>TIMEOUT\<close> exactly when more than 5000 ticks (modulo \<open>2^32\<close>) have passed
  since the command was sent, and it never touches the stage.
\<close>

theorem timeout_strictly_after_5000:
  assumes "response_status s = WAITING"
  shows "response_status (main_timeout_step s)
           = (if 5000 < HAL_GetTick s - tick_when_sent s then TIMEOUT else WAITING) \<and>
         setup_stage (main_timeout_step s) = setup_stage s"
  using assms by (simp add: main_timeout_step_def Is_Timedout_def Let_def prim_defs)

theorem timeout_strictly_after_5000_witness:
  "response_status (HAL_Delay 5001 (Send_Command (''AT'' @ CRLF) boot)) = WAITING \<and>
   response_status (main_timeout_step (HAL_Delay 5001 (Send_Command (''AT'' @ CRLF) boot)))
     = TIMEOUT \<and>
   setup_stage (main_timeout_step (HAL_Delay 5001 (Send_Command (''AT'' @ CRLF) boot)))
     = setup_stage (HAL_Delay 5001 (Send_Command (''AT'' @ CRLF) boot))"
  using timeout_strictly_after_5000 [of "HAL_Delay 5001 (Send_Command (''AT'' @ CRLF) boot)"]
  by (simp add: Send_Command_def Let_def prim_defs boot_def loop_entry_def)

subsection \<open>The pacing of \<^verbatim>\<open>Send_Data_To_Server\<close>\<close>

lemma last_send_keeps [simp]:
  "server_last_send_time (CDC_Transmit_FS b n s) = server_last_send_time s"
  "server_last_send_time (Clear_RX_Buffer s) = server_last_send_time s"
  "server_last_send_time (Send_Command cmd s) = server_last_send_time s"
  "server_last_send_time (HAL_UART_Transmit b n s) = server_last_send_time s"
  by (simp_all add: Send_Command_def prim_defs Let_def)

lemma tick_trace_keeps [simp]:
  "HAL_GetTick (CDC_Transmit_FS b n s) = HAL_GetTick s"
  "HAL_GetTick (Clear_RX_Buffer s) = HAL_GetTick s"
  "trace (Clear_RX_Buffer s) = trace s"
  by (simp_all add: prim_defs Let_def)

lemma wait_prompt_last_send:
  "server_last_send_time (snd (wait_prompt start_time s)) = server_last_send_time s"
  by (induction start_time s rule: wait_prompt.induct) (subst wait_prompt.simps, simp)

lemma wait_prompt_last_send_pair:
  "wait_prompt start_time s = (got, s') \<Longrightarrow> server_last_send_time s' = server_last_send_time s"
  using wait_prompt_last_send [of start_time s] by simp

text \<open>
  What every wait for the prompt and every re-send of the command preserves, the retry
  loop preserves.
\<close>

lemma send_retry_preserves:
  assumes wp: "\<And>st x. P x \<Longrightarrow> P (snd (wait_prompt st x))"
    and rs: "\<And>c x. P x \<Longrightarrow> P (HAL_Delay 200 (Send_Command c (Clear_RX_Buffer
                      (CDC_Transmit_FS (''Retrying CIPSEND...'' @ LF) 20 x))))"
  shows "P s \<Longrightarrow> P (snd (send_retry cmd retries start_time s))"
proof (induction cmd retries start_time s rule: send_retry.induct)
  case (1 cmd retries start_time s)
  show ?case
  proof (cases "retries < 3")
    case False
    with "1.prems" show ?thesis by (subst send_retry.simps) simp
  next
    case r3: True
    obtain got s1 where w: "wait_prompt start_time s = (got, s1)"
      by (cases "wait_prompt start_time s")
    with wp [OF "1.prems", of start_time] have s1: "P s1" by simp
    show ?thesis
    proof (cases got)
      case True
      with w r3 s1 show ?thesis by (subst send_retry.simps) simp
    next
      case False
      with w have w': "(False, s1) = wait_prompt start_time s" by simp
      show ?thesis
      proof (cases "retries + 1 < 3")
        case True
        from "1.IH"(1) [OF r3 w' refl refl True refl refl refl refl rs [OF s1]]
        show ?thesis
          using w r3 False True by (subst send_retry.simps) (simp add: Let_def)
      next
        case nlt: False
        from "1.IH"(2) [OF r3 w' refl refl nlt s1]
        show ?thesis
          using w r3 False nlt by (subst send_retry.simps) (simp add: Let_def)
      qed
    qed
  qed
qed

lemma send_retry_last_send:
  "server_last_send_time (snd (send_retry cmd retries start_time s)) = server_last_send_time s"
  by (rule send_retry_preserves [where P = "\<lambda>x. server_last_send_time x = server_last_send_time s"])
     (simp_all add: wait_prompt_last_send)

lemma send_retry_last_send_pair:
  "send_retry cmd retries start_time s = (got, s') \<Longrightarrow>
     server_last_send_time s' = server_last_send_time s"
  using send_retry_last_send [of cmd retries start_time s] by simp

lemma wait_send_ok_last_send:
  "wait_send_ok start_time s = (ok, s') \<Longrightarrow>
     (if ok then trace s' = trace s @ [Cdc_Tx (''Data sent successfully'' @ LF)] \<and>
                 server_last_send_time s' = HAL_GetTick s'
      else server_last_send_time s' = server_last_send_time s \<and> trace s' = trace s)"
  apply (induction start_time s rule: wait_send_ok.induct)
  apply (subst (asm) (2) wait_send_ok.simps)
  apply (auto simp add: Let_def CDC_Transmit_FS_def HAL_GetTick_def split: if_splits)
  done

lemma send_payload_last_send:
  "server_last_send_time (send_payload request s) = server_last_send_time s \<or>
   last (trace (send_payload request s)) = Cdc_Tx (''Data sent successfully'' @ LF) \<and>
   server_last_send_time (send_payload request s) = HAL_GetTick (send_payload request s)"
proof -
  define s1 where "s1 = HAL_UART_Transmit request (length request)
                          (CDC_Transmit_FS (''Sending data...'' @ LF) 16 (Clear_RX_Buffer s))"
  obtain ok s2 where w: "wait_send_ok (HAL_GetTick s1) s1 = (ok, s2)"
    by (cases "wait_send_ok (HAL_GetTick s1) s1")
  have s1: "server_last_send_time s1 = server_last_send_time s"
    by (simp add: s1_def)
  have eq: "send_payload request s =
              (if ok then Clear_RX_Buffer s2
               else Clear_RX_Buffer
                      (CDC_Transmit_FS
                         (rx_string (CDC_Transmit_FS (''Send timeout - Response:'' @ LF) 25 s2))
                         (length (rx_string (CDC_Transmit_FS (''Send timeout - Response:'' @ LF) 25 s2)))
                         (CDC_Transmit_FS (''Send timeout - Response:'' @ LF) 25 s2)))"
    unfolding send_payload_def Let_def s1_def [symmetric] w by simp
  from wait_send_ok_last_send [OF w] s1 show ?thesis
    by (cases ok) (simp_all add: eq)
qed

lemmas run_defs = loop_entry_def USART2_IRQHandler_def HAL_UART_RxCpltCallback_def
  HAL_UART_Receive_IT_def HAL_UART_AbortReceive_IT_def HAL_GPIO_EXTI_Callback_def
  HAL_Delay_def HAL_GetTick_def CDC_Transmit_FS_def HAL_UART_Transmit_def
  Clear_RX_Buffer_def memset_rx_buffer_def Change_Response_Status_def Send_Command_def
  rx_string_def string_at.simps RX_BUFFER_SIZE_def c_str_def snprintf_def
  show_nat.simps digit_char_def Let_def

lemmas send_loops = wait_prompt.simps send_retry.simps wait_send_ok.simps send_payload_def

lemma send_ok_state_run:
  "HAL_GetTick (Send_Data_To_Server ''{}'' send_ok_state) = 1360 \<and>
   server_last_send_time (Send_Data_To_Server ''{}'' send_ok_state) = 1360"
  by (simp add: send_ok_state_def Send_Data_To_Server_def run_defs send_loops
      cong: let_weak_cong)

subsection \<open>Classifying a frame\<close>


lemma rx_string_keeps [simp]:
  "rx_string (CDC_Transmit_FS b n s) = rx_string s"
  "rx_string (s\<lparr>receiving_data := r\<rparr>) = rx_string s"
  "rx_string (s\<lparr>is_client_connected := c\<rparr>) = rx_string s"
  "rx_string (s\<lparr>is_client_requesting_page := c\<rparr>) = rx_string s"
  "rx_string (Change_Response_Status st s) = rx_string s"
  by (simp_all add: rx_string_def CDC_Transmit_FS_def Change_Response_Status_def)

lemma idle_for_keeps [simp]:
  "idle_for d (CDC_Transmit_FS b n s) = idle_for d s"
  "idle_for d (s\<lparr>receiving_data := r\<rparr>) = idle_for d s"
  by (simp_all add: idle_for_def CDC_Transmit_FS_def)

lemma status_keeps [simp]:
  "response_status (CDC_Transmit_FS b n s) = response_status s"
  "response_status (Clear_RX_Buffer s) = response_status s"
  by (simp_all add: prim_defs Let_def)



lemma log_reception_status [simp]:
  "response_status (log_reception s) = response_status s"
  by (simp add: log_reception_def Log_Uart_Response_def Let_def)

lemma update_client_flags_keeps [simp]:
  "rx_string (update_client_flags s) = rx_string s"
  "response_status (update_client_flags s) = response_status s"
  by (simp_all add: update_client_flags_def Let_def)

lemma Send_Command_after:
  "rx_string (Send_Command cmd s) = [] \<and> response_status (Send_Command cmd s) = WAITING"
proof -
  have "rx_string (Send_Command cmd s) = rx_string (Clear_RX_Buffer (HAL_UART_AbortReceive_IT s))"
    by (simp add: Send_Command_def Let_def rx_string_def HAL_UART_Transmit_def
        HAL_UART_Receive_IT_def Change_Response_Status_def)
  then show ?thesis
    by (simp add: rx_string_reset) (simp add: Send_Command_def Let_def prim_defs)
qed

















subsection \<open>What the trace and the connection flag go through\<close>

lemma sat_HAL_Delay [simp]: "sat Q (HAL_Delay d s) = sat Q s"
  by (simp add: sat_def)

lemma sat_updates [simp]:
  "sat Q (s\<lparr>setup_stage := v1\<rparr>) = sat Q s"
  "sat Q (s\<lparr>response_status := v1\<rparr>) = sat Q s"
  "sat Q (s\<lparr>has_response_changed := v1\<rparr>) = sat Q s"
  "sat Q (s\<lparr>tick_when_sent := v2\<rparr>) = sat Q s"
  "sat Q (s\<lparr>receiving_data := v1\<rparr>) = sat Q s"
  "sat Q (s\<lparr>is_client_connected := v1\<rparr>) = sat Q s"
  "sat Q (s\<lparr>was_client_connected := v1\<rparr>) = sat Q s"
  "sat Q (s\<lparr>is_client_requesting_page := v1\<rparr>) = sat Q s"
  "sat Q (s\<lparr>was_client_requesting_page := v1\<rparr>) = sat Q s"
  "sat Q (s\<lparr>button_action_pending := v1\<rparr>) = sat Q s"
  "sat Q (s\<lparr>transmission_mode := v1\<rparr>) = sat Q s"
  "sat Q (s\<lparr>server_last_send_time := v2\<rparr>) = sat Q s"
  "sat Q (s\<lparr>ascii_last_send_time := v2\<rparr>) = sat Q s"
  "sat Q (s\<lparr>data_ready_mag := v1\<rparr>) = sat Q s"
  "sat Q (s\<lparr>data_ready_acc := v1\<rparr>) = sat Q s"
  "sat Q (s\<lparr>data_ready_gyr := v1\<rparr>) = sat Q s"
  "sat Q (s\<lparr>packet_number := v3\<rparr>) = sat Q s"
  by (simp_all add: sat_def)

lemma sat_prims [simp]:
  "sat Q (Clear_RX_Buffer s) = sat Q s"
  "sat Q (Change_Response_Status st s) = sat Q s"
  "sat Q (HAL_UART_AbortReceive_IT s) = sat Q s"
  "sat Q (HAL_UART_Receive_IT i s) = sat Q s"
  by (simp_all add: sat_def prim_defs Let_def)

lemma sat_text [simp]:
  "text_closed Q \<Longrightarrow> sat Q s \<Longrightarrow> sat Q (CDC_Transmit_FS b n s)"
  "text_closed Q \<Longrightarrow> sat Q s \<Longrightarrow> sat Q (HAL_UART_Transmit b n s)"
  by (simp_all add: sat_def text_closed_def CDC_Transmit_FS_def HAL_UART_Transmit_def)

lemma sat_Send_Command [simp]:
  "text_closed Q \<Longrightarrow> sat Q s \<Longrightarrow> sat Q (Send_Command cmd s)"
  by (simp add: Send_Command_def Let_def)

lemma sat_logs [simp]:
  "text_closed Q \<Longrightarrow> sat Q s \<Longrightarrow> sat Q (Log_Client_Status_Change s)"
  "text_closed Q \<Longrightarrow> sat Q s \<Longrightarrow> sat Q (Log_Client_Request_Change s)"
  "text_closed Q \<Longrightarrow> sat Q s \<Longrightarrow> sat Q (Log_Uart_Response s)"
  "text_closed Q \<Longrightarrow> sat Q s \<Longrightarrow> sat Q (Log_Response_Status_Change s)"
  "text_closed Q \<Longrightarrow> sat Q s \<Longrightarrow> sat Q (Log_Setup_Stage_Change s)"
  by (simp_all add: Log_Client_Status_Change_def Log_Client_Request_Change_def
      Log_Uart_Response_def Log_Response_Status_Change_def Log_Setup_Stage_Change_def Let_def)

lemma sat_log_reception [simp]:
  "text_closed Q \<Longrightarrow> sat Q s \<Longrightarrow> sat Q (log_reception s)"
  by (simp add: log_reception_def Let_def)

lemma sat_flags [simp]:
  "sat Q (update_client_flags s) = sat Q s"
  "sat Q (classify_frame s) = sat Q s"
  by (simp_all add: update_client_flags_def classify_frame_def Let_def)

lemma sat_Handle_Client_Request:
  "Handle_Client_Request s = Some s' \<Longrightarrow> text_closed Q \<Longrightarrow> sat Q s \<Longrightarrow> sat Q s'"
  by (auto simp add: Handle_Client_Request_def Send_Connect_Request_def Let_def
      split: if_splits option.splits prod.splits)

lemma sat_Check_Reception_Completion:
  assumes "Check_Reception_Completion s = Some s'" and "text_closed Q" and "sat Q s"
  shows "sat Q s'"
proof (cases "strstr (rx_string s) (CRLF @ CRLF) \<noteq> None")
  case False
  with assms show ?thesis by (simp add: Check_Reception_Completion_def)
next
  case True
  let ?s1 = "log_reception (s\<lparr>receiving_data := 0\<rparr>)"
  have s1: "sat Q ?s1" using assms by simp
  from assms(1) True obtain s2 where
    s2: "Handle_Client_Request ?s1 = Some s2 \<or> s2 = ?s1"
    and s': "s' = Clear_RX_Buffer (classify_frame (update_client_flags s2))"
    by (auto simp add: Check_Reception_Completion_def Let_def split: option.splits if_splits)
  from s2 s1 assms(2) have "sat Q s2"
    by (auto dest: sat_Handle_Client_Request)
  then show ?thesis by (simp add: s')
qed

lemma sat_Has_Response_Finished [simp]:
  "text_closed Q \<Longrightarrow> sat Q s \<Longrightarrow> sat Q (snd (Has_Response_Finished s))"
  by (simp add: Has_Response_Finished_def Let_def)

lemma sat_Set_Setup_Stage [simp]:
  "text_closed Q \<Longrightarrow> sat Q s \<Longrightarrow> sat Q (Set_Setup_Stage st s)"
  by (simp add: Set_Setup_Stage_def Let_def)

lemma sat_Handle_Response [simp]:
  "text_closed Q \<Longrightarrow> sat Q s \<Longrightarrow> sat Q (Handle_Response s)"
  by (simp add: Handle_Response_def Let_def)

lemma sat_main_timeout_step [simp]: "sat Q (main_timeout_step s) = sat Q s"
  by (simp add: main_timeout_step_def)

lemma sat_Configure [simp]:
  "text_closed Q \<Longrightarrow> sat Q s \<Longrightarrow> sat Q (Configure_ESP_As_Access_Point s)"
  by (simp add: Configure_ESP_As_Access_Point_def Send_HTML_Header_def Let_def)

lemma sat_main_send_request_step [simp]:
  "text_closed Q \<Longrightarrow> sat Q s \<Longrightarrow> sat Q (main_send_request_step s)"
  by (simp add: main_send_request_step_def)

lemma sat_main_button_step [simp]:
  "text_closed Q \<Longrightarrow> sat Q s \<Longrightarrow> sat Q (main_button_step s)"
  by (simp add: main_button_step_def Indicate_Transmission_Mode_def Let_def)

lemma sat_wait_connect [simp]:
  "text_closed Q \<Longrightarrow> sat Q s \<Longrightarrow> sat Q (snd (wait_connect start_time s))"
  by (induction start_time s rule: wait_connect.induct)
     (subst wait_connect.simps, simp add: Let_def busy_wait_tick_def)

lemma sat_Establish_Connection [simp]:
  "text_closed Q \<Longrightarrow> sat Q s \<Longrightarrow> sat Q (Establish_Connection server_ip port s)"
  by (simp add: Establish_Connection_def Let_def case_prod_beta split: bool.split)

lemma append_closed_text: "append_closed Q \<Longrightarrow> text_closed Q"
  by (simp add: append_closed_def text_closed_def)

lemma sat_conn [simp]:
  "conn_free Q \<Longrightarrow> sat Q (s\<lparr>connection_established := v\<rparr>) = sat Q s"
  by (auto simp add: sat_def conn_free_def)

lemma sat_wait_prompt [simp]:
  "text_closed Q \<Longrightarrow> sat Q s \<Longrightarrow> sat Q (snd (wait_prompt start_time s))"
  by (induction start_time s rule: wait_prompt.induct) (subst wait_prompt.simps, simp)

lemma sat_send_retry [simp]:
  "text_closed Q \<Longrightarrow> sat Q s \<Longrightarrow> sat Q (snd (send_retry cmd retries start_time s))"
  by (rule send_retry_preserves [where P = "sat Q"]) simp_all

lemma sat_wait_send_ok [simp]:
  "text_closed Q \<Longrightarrow> sat Q s \<Longrightarrow> sat Q (snd (wait_send_ok start_time s))"
  by (induction start_time s rule: wait_send_ok.induct)
     (subst wait_send_ok.simps, simp add: Let_def)

lemma sat_send_payload [simp]:
  "text_closed Q \<Longrightarrow> sat Q s \<Longrightarrow> sat Q (send_payload request s)"
  by (simp add: send_payload_def Let_def case_prod_beta split: bool.split)

lemma sat_Send_Data_To_Server [simp]:
  "text_closed Q \<Longrightarrow> conn_free Q \<Longrightarrow> sat Q s \<Longrightarrow> sat Q (Send_Data_To_Server json_data s)"
  by (simp add: Send_Data_To_Server_def Let_def case_prod_beta split: bool.split)

lemma sat_Transmit_Data_ASCII [simp]:
  "text_closed Q \<Longrightarrow> conn_free Q \<Longrightarrow> sat Q s \<Longrightarrow> sat Q (Transmit_Data_ASCII label x y z s)"
  by (simp add: Transmit_Data_ASCII_def Let_def)

lemma sat_bus [simp]:
  "append_closed Q \<Longrightarrow> sat Q s \<Longrightarrow> sat Q (Beri_Registre device reg len s)"
  "append_closed Q \<Longrightarrow> sat Q s \<Longrightarrow> sat Q (spi1_beriRegistre reg len s)"
  "append_closed Q \<Longrightarrow> sat Q s \<Longrightarrow> sat Q (HAL_UART_Transmit_bytes bs n s)"
  "append_closed Q \<Longrightarrow> sat Q s \<Longrightarrow> sat Q (CDC_Transmit_FS_bytes bs n s)"
  by (simp_all add: sat_def append_closed_def Beri_Registre_def spi1_beriRegistre_def
      HAL_UART_Transmit_bytes_def CDC_Transmit_FS_bytes_def Let_def)

lemma sat_Clear_Interrupts [simp]:
  "append_closed Q \<Longrightarrow> sat Q s \<Longrightarrow> sat Q (Clear_Interrupts s)"
  by (simp add: Clear_Interrupts_def Let_def)

lemma sat_handlers [simp]:
  "append_closed Q \<Longrightarrow> conn_free Q \<Longrightarrow> sat Q s \<Longrightarrow> sat Q (Handle_Magnetometer s)"
  "append_closed Q \<Longrightarrow> conn_free Q \<Longrightarrow> sat Q s \<Longrightarrow> sat Q (Handle_Accelerometer s)"
  "append_closed Q \<Longrightarrow> conn_free Q \<Longrightarrow> sat Q s \<Longrightarrow> sat Q (Handle_Gyroscope s)"
  by (simp_all add: Handle_Magnetometer_def Handle_Accelerometer_def Handle_Gyroscope_def
      Let_def case_prod_beta append_closed_text)

lemma sat_main_sensor_step [simp]:
  "append_closed Q \<Longrightarrow> conn_free Q \<Longrightarrow> sat Q s \<Longrightarrow> sat Q (main_sensor_step s)"
  by (simp add: main_sensor_step_def Let_def)

lemma sat_main_connect_step [simp]:
  "append_closed Q \<Longrightarrow> conn_free Q \<Longrightarrow> sat Q s \<Longrightarrow> sat Q (main_connect_step s)"
  by (simp add: main_connect_step_def Let_def append_closed_text)

subsection \<open>No sample before the connection\<close>

lemma nsbc_plain:
  "list_all (\<lambda>e. \<not> is_sensor_io e) t \<Longrightarrow> no_sample_before_connect u \<Longrightarrow>
     no_sample_before_connect (t @ u)"
  by (induction t) auto

lemma nsbc_plain_all: "list_all (\<lambda>e. \<not> is_sensor_io e) t \<Longrightarrow> no_sample_before_connect t"
  using nsbc_plain [of t "[]"] by simp

lemma nsbc_append:
  "no_sample_before_connect t \<Longrightarrow> connected_msg \<in> set t \<Longrightarrow> no_sample_before_connect (t @ u)"
  by (induction t) auto

lemma before_connect_closed: "text_closed before_connect"
  by (simp add: text_closed_def before_connect_def)

lemma after_connect_closed: "append_closed after_connect" "conn_free after_connect"
  by (simp_all add: append_closed_def conn_free_def after_connect_def nsbc_append)

lemma connect_then_sensors:
  assumes "sat before_connect s"
  shows "sat before_connect (main_sensor_step (main_connect_step s)) \<or>
         sat after_connect (main_sensor_step (main_connect_step s))"
proof -
  let ?e = "Establish_Connection ''172.20.10.11'' 5000
              (CDC_Transmit_FS (''Attempting to connect...'' @ LF) 25 s)"
  have e: "sat before_connect ?e"
    using assms before_connect_closed by simp
  show ?thesis
  proof (cases "connection_established s = 0 \<and> transmission_mode s = MODE_ASCII_UART
                \<and> response_status ?e = SUCCESS")
    case True
    then have "main_connect_step s
                 = (CDC_Transmit_FS (''Connection successful!'' @ LF) 24 ?e)
                     \<lparr>connection_established := 1\<rparr>"
      by (simp add: main_connect_step_def Let_def)
    moreover have "sat after_connect (CDC_Transmit_FS (''Connection successful!'' @ LF) 24 ?e)"
      using e by (simp add: sat_def before_connect_def after_connect_def CDC_Transmit_FS_def
          connected_msg_def nsbc_plain)
    ultimately show ?thesis
      using after_connect_closed by simp
  next
    case False
    then have "sat before_connect (main_connect_step s)"
      using e assms before_connect_closed by (auto simp add: main_connect_step_def Let_def)
    moreover from this have "connection_established (main_connect_step s) = 0"
      by (simp add: sat_def before_connect_def)
    ultimately show ?thesis by (simp add: main_sensor_step_def)
  qed
qed

lemma main_loop_body_shape:
  assumes "main_loop_body s = Some s'"
  obtains s1 where
    "Check_Reception_Completion (Log_Client_Request_Change (Log_Client_Status_Change s)) = Some s1"
    "s' = main_sensor_step (main_connect_step (main_button_step (main_send_request_step
            (main_timeout_step
               (if fst (Has_Response_Finished s1) = 1
                then Handle_Response (snd (Has_Response_Finished s1))
                else snd (Has_Response_Finished s1))))))"
  using assms
  by (auto simp add: main_loop_body_def Let_def case_prod_beta split: option.splits)

lemma main_loop_body_inv:
  assumes "main_loop_body s = Some s'" and "sat before_connect s \<or> sat after_connect s"
  shows "sat before_connect s' \<or> sat after_connect s'"
proof -
  from assms(1) obtain s1 where
    s1: "Check_Reception_Completion (Log_Client_Request_Change (Log_Client_Status_Change s)) = Some s1"
    and s': "s' = main_sensor_step (main_connect_step (main_button_step (main_send_request_step
            (main_timeout_step
               (if fst (Has_Response_Finished s1) = 1
                then Handle_Response (snd (Has_Response_Finished s1))
                else snd (Has_Response_Finished s1))))))"
    by (rule main_loop_body_shape)
  let ?s5 = "main_button_step (main_send_request_step
            (main_timeout_step
               (if fst (Has_Response_Finished s1) = 1
                then Handle_Response (snd (Has_Response_Finished s1))
                else snd (Has_Response_Finished s1))))"
  have pre: "sat Q ?s5" if "text_closed Q" "sat Q s" for Q
  proof -
    from that have "sat Q (Log_Client_Request_Change (Log_Client_Status_Change s))" by simp
    from sat_Check_Reception_Completion [OF s1 that(1) this] that(1)
    show ?thesis by simp
  qed
  from assms(2) show ?thesis
  proof
    assume "sat before_connect s"
    from pre [OF before_connect_closed this] have "sat before_connect ?s5" .
    from connect_then_sensors [OF this] show ?thesis by (simp add: s')
  next
    assume "sat after_connect s"
    from pre [OF append_closed_text [OF after_connect_closed(1)] this]
    have "sat after_connect ?s5" .
    then have "sat after_connect s'"
      using after_connect_closed by (simp add: s')
    then show ?thesis ..
  qed
qed

lemma main_loop_inv:
  "main_loop periods s = Some s' \<Longrightarrow> sat before_connect s \<or> sat after_connect s \<Longrightarrow>
     sat before_connect s' \<or> sat after_connect s'"
proof (induction periods arbitrary: s)
  case Nil
  then show ?case by simp
next
  case (Cons period periods)
  from Cons.prems(1) obtain s1 where b: "main_loop_body s = Some s1"
    and r: "main_loop periods (HAL_Delay period s1) = Some s'"
    by (auto split: option.splits)
  from main_loop_body_inv [OF b Cons.prems(2)]
  have "sat before_connect (HAL_Delay period s1) \<or> sat after_connect (HAL_Delay period s1)"
    by simp
  from Cons.IH [OF r this] show ?case .
qed

text \<open>
  C9. With \<^verbatim>\<open>connection_established\<close> at 0, the loop's sensor block does nothing.
  Unless the mode is \<^verbatim>\<open>MODE_ASCII_UART\<close>, the loop's connect block does nothing. And in
  every run of the loop from a state where the flag is 0 and nothing has been sent, in
  whatever modes it passes through, no bus read and no binary packet comes before the first
  \<^verbatim>\<open>Connection successful!\<close> (which \<^verbatim>\<open>main\<close> prints when \<^verbatim>\<open>Establish_Connection\<close>
  has left the status \<^verbatim>\<open>SUCCESS\<close>); whenever the flag is set, that message has been
  printed. Every handler starts with a bus read, so before the message no sample has been
  handled. (\<open>None\<close> is a run that met a malformed credentials request.)
\<close>

theorem sensors_wait_for_connection:
  "(connection_established s = 0 \<longrightarrow> main_sensor_step s = s) \<and>
   (transmission_mode s \<noteq> MODE_ASCII_UART \<longrightarrow> main_connect_step s = s) \<and>
   (connection_established s = 0 \<and> trace s = [] \<longrightarrow>
      pred_option (\<lambda>s'. no_sample_before_connect (trace s') \<and>
                         (connection_established s' \<noteq> 0 \<longrightarrow> connected_msg \<in> set (trace s')))
        (main_loop periods s))"
proof (intro conjI impI)
  assume "connection_established s = 0"
  then show "main_sensor_step s = s" by (simp add: main_sensor_step_def)
next
  assume "transmission_mode s \<noteq> MODE_ASCII_UART"
  then show "main_connect_step s = s" by (simp add: main_connect_step_def)
next
  assume a: "connection_established s = 0 \<and> trace s = []"
  show "pred_option (\<lambda>s'. no_sample_before_connect (trace s') \<and>
                         (connection_established s' \<noteq> 0 \<longrightarrow> connected_msg \<in> set (trace s')))
        (main_loop periods s)"
  proof (cases "main_loop periods s")
    case None
    then show ?thesis by simp
  next
    case (Some s')
    from a have "sat before_connect s" by (simp add: sat_def before_connect_def)
    with main_loop_inv [OF Some] have "sat before_connect s' \<or> sat after_connect s'" by simp
    then show ?thesis
      by (auto simp add: Some sat_def before_connect_def after_connect_def nsbc_plain_all)
  qed
qed

lemmas main_defs = main_loop_body_def Log_Client_Status_Change_def Log_Client_Request_Change_def
  Check_Reception_Completion_def Has_Response_Finished_def Handle_Response_def
  main_timeout_step_def Is_Timedout_def main_send_request_step_def main_button_step_def
  main_connect_step_def main_sensor_step_def Indicate_Transmission_Mode_def
  Establish_Connection_def wait_connect.simps busy_wait_tick_def Log_Response_Status_Change_def
  Set_Setup_Stage_def Log_Setup_Stage_Change_def Configure_ESP_As_Access_Point_def

lemmas sensor_defs = Handle_Magnetometer_def Handle_Accelerometer_def Handle_Gyroscope_def
  raw_data_def Beri_Registre_def spi1_beriRegistre_def Clear_Interrupts_def Pack_Data_def
  HAL_UART_Transmit_bytes_def CDC_Transmit_FS_bytes_def zero_sample_def

text \<open>
  The run: seven iterations. The modes go 0, 1, 2 (where the connection is made), 3, 4, 0
  and 1, and in the last iteration the accelerometer sample is handled.
\<close>

lemma demo_run:
  "map_option (\<lambda>s. (transmission_mode s, connection_established s, filter is_sensor_io (trace s)))
     (main_loop demo_periods demo_state)
   = Some (MODE_BINARY_UART, 1,
           [I2c_Read 50 168 6, I2c_Read 60 232 6, I2c_Read 50 168 6, I2c_Read 214 168 6,
            Uart_Tx_Bin [0xBB, 0xBB, 0, 0, 0, 0, 0, 0, 0, 0]])"
  by (simp add: demo_periods_def demo_state_def demo_irqs_def long_press_def main_defs run_defs
      sensor_defs cong: let_weak_cong)

theorem sensors_wait_for_connection_witness:
  "connection_established demo_state = 0 \<and> main_sensor_step demo_state = demo_state \<and>
   transmission_mode demo_state \<noteq> MODE_ASCII_UART \<and> main_connect_step demo_state = demo_state \<and>
   trace demo_state = [] \<and>
   main_loop demo_periods demo_state \<noteq> None \<and>
   pred_option (\<lambda>s'. no_sample_before_connect (trace s') \<and>
                      (connection_established s' \<noteq> 0 \<longrightarrow> connected_msg \<in> set (trace s')))
     (main_loop demo_periods demo_state)"
proof -
  from demo_run have "main_loop demo_periods demo_state \<noteq> None" by auto
  moreover have "connection_established demo_state = 0 \<and> trace demo_state = [] \<and>
                 transmission_mode demo_state \<noteq> MODE_ASCII_UART"
    by (simp add: demo_state_def loop_entry_def)
  ultimately show ?thesis
    using sensors_wait_for_connection [of demo_state demo_periods] by simp
qed

subsection \<open>Where the binary packets go\<close>

lemma uart_packets_append [simp]: "uart_packets (t @ u) = uart_packets t @ uart_packets u"
  by (induction t rule: uart_packets.induct) simp_all

lemma cdc_packets_append [simp]: "cdc_packets (t @ u) = cdc_packets t @ cdc_packets u"
  by (induction t rule: cdc_packets.induct) simp_all

lemma uart_packets_filter: "uart_packets (filter is_sensor_io t) = uart_packets t"
  by (induction t rule: uart_packets.induct) simp_all

lemma packets_are_closed: "text_closed (packets_are us cs)" "conn_free (packets_are us cs)"
  by (simp_all add: text_closed_def conn_free_def packets_are_def)

lemma Transmit_Data_ASCII_packets:
  "uart_packets (trace (Transmit_Data_ASCII label x y z s)) = uart_packets (trace s) \<and>
   cdc_packets (trace (Transmit_Data_ASCII label x y z s)) = cdc_packets (trace s)"
proof -
  have "sat (packets_are (uart_packets (trace s)) (cdc_packets (trace s))) s"
    by (simp add: sat_def packets_are_def)
  then have "sat (packets_are (uart_packets (trace s)) (cdc_packets (trace s)))
               (Transmit_Data_ASCII label x y z s)"
    using packets_are_closed by simp
  then show ?thesis by (simp add: sat_def packets_are_def)
qed

lemma mode_cases: "(m :: 8 word) < 5 \<Longrightarrow> m = 0 \<or> m = 1 \<or> m = 2 \<or> m = 3 \<or> m = 4"
  by unat_arith

lemma long_press_cycles:
  assumes "button_action_pending s \<noteq> 0" and "button_action_type s \<noteq> 0"
    and "transmission_mode s < 5"
  shows "transmission_mode (main_button_step s)
           = (if transmission_mode s = MODE_ASCII_CDC then MODE_NONE else transmission_mode s + 1)"
  using mode_cases [OF assms(3)] assms(1,2)
  by (auto simp add: main_button_step_def Indicate_Transmission_Mode_def Let_def CDC_Transmit_FS_def)

lemmas bus_defs = Beri_Registre_def spi1_beriRegistre_def Clear_Interrupts_def
  HAL_UART_Transmit_bytes_def CDC_Transmit_FS_bytes_def Let_def

lemma Handle_Magnetometer_packets:
  "uart_packets (trace (Handle_Magnetometer s))
     = uart_packets (trace s) @
       (if transmission_mode s = MODE_BINARY_UART
        then [case raw_data 0x1E s of (x, y, z) \<Rightarrow> Pack_Data HEADER_MAG x y z s] else []) \<and>
   cdc_packets (trace (Handle_Magnetometer s))
     = cdc_packets (trace s) @
       (if transmission_mode s = MODE_BINARY_CDC
        then [case raw_data 0x1E s of (x, y, z) \<Rightarrow> Pack_Data HEADER_MAG x y z s] else [])"
  by (simp add: Handle_Magnetometer_def bus_defs case_prod_beta Transmit_Data_ASCII_packets
      raw_data_def HAL_GetTick_def Pack_Data_def)

lemma Handle_Accelerometer_packets:
  "uart_packets (trace (Handle_Accelerometer s))
     = uart_packets (trace s) @
       (if transmission_mode s = MODE_BINARY_UART
        then [case raw_data 0x19 s of (x, y, z) \<Rightarrow> Pack_Data HEADER_ACC x y z s] else []) \<and>
   cdc_packets (trace (Handle_Accelerometer s))
     = cdc_packets (trace s) @
       (if transmission_mode s = MODE_BINARY_CDC
        then [case raw_data 0x19 s of (x, y, z) \<Rightarrow> Pack_Data HEADER_ACC x y z s] else [])"
  by (simp add: Handle_Accelerometer_def bus_defs case_prod_beta Transmit_Data_ASCII_packets
      raw_data_def HAL_GetTick_def Pack_Data_def)

lemma Handle_Gyroscope_packets:
  "uart_packets (trace (Handle_Gyroscope s))
     = uart_packets (trace s) @
       (if transmission_mode s = MODE_BINARY_UART
        then [case raw_data 0x6B s of (x, y, z) \<Rightarrow> Pack_Data HEADER_GYR x y z s] else []) \<and>
   cdc_packets (trace (Handle_Gyroscope s))
     = cdc_packets (trace s) @
       (if transmission_mode s = MODE_BINARY_CDC
        then [case raw_data 0x6B s of (x, y, z) \<Rightarrow> Pack_Data HEADER_GYR x y z s] else [])"
  by (simp add: Handle_Gyroscope_def bus_defs case_prod_beta Transmit_Data_ASCII_packets
      raw_data_def HAL_GetTick_def Pack_Data_def)

text \<open>
  C8, as the code has it. A long press moves the mode one step round the cycle
  0, 1, 2, 3, 4, 0, so every mode is reached, \<^verbatim>\<open>MODE_BINARY_UART\<close> by the first long
  press. Each sensor handler sends its packet over the modem's UART exactly in
  \<^verbatim>\<open>MODE_BINARY_UART\<close> and over the USB port exactly in \<^verbatim>\<open>MODE_BINARY_CDC\<close>, and sends no
  binary packet in the other modes.
\<close>

theorem binary_destination_by_mode:
  "(button_action_pending s \<noteq> 0 \<and> button_action_type s \<noteq> 0 \<and> transmission_mode s < 5 \<longrightarrow>
      transmission_mode (main_button_step s)
        = (if transmission_mode s = MODE_ASCII_CDC then MODE_NONE else transmission_mode s + 1)) \<and>
   uart_packets (trace (Handle_Magnetometer s))
     = uart_packets (trace s) @
       (if transmission_mode s = MODE_BINARY_UART
        then [case raw_data 0x1E s of (x, y, z) \<Rightarrow> Pack_Data HEADER_MAG x y z s] else []) \<and>
   cdc_packets (trace (Handle_Magnetometer s))
     = cdc_packets (trace s) @
       (if transmission_mode s = MODE_BINARY_CDC
        then [case raw_data 0x1E s of (x, y, z) \<Rightarrow> Pack_Data HEADER_MAG x y z s] else []) \<and>
   uart_packets (trace (Handle_Accelerometer s))
     = uart_packets (trace s) @
       (if transmission_mode s = MODE_BINARY_UART
        then [case raw_data 0x19 s of (x, y, z) \<Rightarrow> Pack_Data HEADER_ACC x y z s] else []) \<and>
   cdc_packets (trace (Handle_Accelerometer s))
     = cdc_packets (trace s) @
       (if transmission_mode s = MODE_BINARY_CDC
        then [case raw_data 0x19 s of (x, y, z) \<Rightarrow> Pack_Data HEADER_ACC x y z s] else []) \<and>
   uart_packets (trace (Handle_Gyroscope s))
     = uart_packets (trace s) @
       (if transmission_mode s = MODE_BINARY_UART
        then [case raw_data 0x6B s of (x, y, z) \<Rightarrow> Pack_Data HEADER_GYR x y z s] else []) \<and>
   cdc_packets (trace (Handle_Gyroscope s))
     = cdc_packets (trace s) @
       (if transmission_mode s = MODE_BINARY_CDC
        then [case raw_data 0x6B s of (x, y, z) \<Rightarrow> Pack_Data HEADER_GYR x y z s] else [])"
  using long_press_cycles [of s] Handle_Magnetometer_packets [of s]
    Handle_Accelerometer_packets [of s] Handle_Gyroscope_packets [of s]
  by blast

theorem binary_destination_by_mode_witness:
  "button_action_pending (boot\<lparr>button_action_pending := 1, button_action_type := 1\<rparr>) \<noteq> 0 \<and>
   button_action_type (boot\<lparr>button_action_pending := 1, button_action_type := 1\<rparr>) \<noteq> 0 \<and>
   transmission_mode (boot\<lparr>button_action_pending := 1, button_action_type := 1\<rparr>) < 5 \<and>
   transmission_mode (main_button_step (boot\<lparr>button_action_pending := 1, button_action_type := 1\<rparr>))
     = MODE_BINARY_UART"
  using binary_destination_by_mode [of "boot\<lparr>button_action_pending := 1, button_action_type := 1\<rparr>"]
  by (simp add: boot_def loop_entry_def)

text \<open>
  C8 as stated fails in the run above: by long presses alone, with the connection made on
  the way through \<^verbatim>\<open>MODE_ASCII_UART\<close>, the loop reaches \<^verbatim>\<open>MODE_BINARY_UART\<close> with the
  connection established, and the accelerometer handler sends its binary packet over the
  modem's UART.
\<close>

theorem binary_over_modem_uart_counterexample:
  "map_option (\<lambda>s. (transmission_mode s, connection_established s, uart_packets (trace s)))
     (main_loop demo_periods demo_state)
   = Some (MODE_BINARY_UART, 1, [[0xBB, 0xBB, 0, 0, 0, 0, 0, 0, 0, 0]])"
proof -
  from demo_run obtain s where s: "main_loop demo_periods demo_state = Some s"
    and obs: "transmission_mode s = MODE_BINARY_UART" "connection_established s = 1"
      "filter is_sensor_io (trace s) =
         [I2c_Read 50 168 6, I2c_Read 60 232 6, I2c_Read 50 168 6, I2c_Read 214 168 6,
          Uart_Tx_Bin [0xBB, 0xBB, 0, 0, 0, 0, 0, 0, 0, 0]]"
    by auto
  from obs(3)
  have "uart_packets (filter is_sensor_io (trace s)) = [[0xBB, 0xBB, 0, 0, 0, 0, 0, 0, 0, 0]]"
    by simp
  then have "uart_packets (trace s) = [[0xBB, 0xBB, 0, 0, 0, 0, 0, 0, 0, 0]]"
    by (simp only: uart_packets_filter)
  with s obs show ?thesis by simp
qed

subsection \<open>Two calls of \<^verbatim>\<open>Send_Data_To_Server\<close>\<close>

lemma snprintf_fits: "\<not> 512 < length (snprintf 512 t)"
  by (simp add: snprintf_def)

lemma status_query_sent:
  "uart_sent (trace (HAL_Delay 100 (Send_Command (''AT+CIPSTATUS'' @ CRLF)
      (CDC_Transmit_FS (''Checking connection status...'' @ LF) 29 s))))
   = uart_sent (trace s) @ [''AT+CIPSTATUS'' @ CRLF]"
  by (simp add: Send_Command_sent) (simp add: CDC_Transmit_FS_def c_str_def)

lemma passing_call_transmits:
  assumes ng: "\<not> HAL_GetTick s - server_last_send_time s < 500"
  shows "\<exists>rest. uart_sent (trace (Send_Data_To_Server json_data s))
                  = uart_sent (trace s) @ (''AT+CIPSTATUS'' @ CRLF) # rest"
proof -
  define Q :: "8 word \<times> io list \<Rightarrow> bool"
    where "Q = (\<lambda>(c, t). \<exists>rest. uart_sent t = uart_sent (trace s) @ (''AT+CIPSTATUS'' @ CRLF) # rest)"
  have tc: "text_closed Q" and cf: "conn_free Q"
    by (auto simp add: text_closed_def conn_free_def Q_def)
  have base: "sat Q (Send_Command (''AT+CIPSTATUS'' @ CRLF)
                 (CDC_Transmit_FS (''Checking connection status...'' @ LF) 29 s))"
    using status_query_sent [of s] by (simp add: sat_def Q_def)
  have "sat Q (Send_Data_To_Server json_data s)"
    using ng tc cf base
    by (simp add: Send_Data_To_Server_def Let_def case_prod_beta snprintf_fits split: bool.split)
  then show ?thesis by (simp add: sat_def Q_def)
qed

lemma second_call_in_window:
  fixes t1 te t2 :: "32 word"
  assumes "te - t1 \<le> t2 - t1" and "t2 - t1 < 500"
  shows "t2 - te < 500"
proof -
  have "t2 - te = (t2 - t1) - (te - t1)" by simp
  also have "\<dots> \<le> t2 - t1" using assms(1) by (rule word_sub_le)
  finally show ?thesis using assms(2) by simp
qed

lemma second_call_past_window:
  fixes t1 t2 l :: "32 word"
  assumes "\<not> t1 - l < 500" and "t2 - t1 < 500" and "unat (t1 - l) + 500 \<le> 2 ^ 32"
  shows "\<not> t2 - l < 500"
proof -
  define x where "x = t2 - t1"
  define y where "y = t1 - l"
  have a: "500 \<le> unat y" using assms(1) by (simp add: word_less_nat_alt y_def)
  have b: "unat x < 500" using assms(2) by (simp add: word_less_nat_alt x_def)
  have c: "unat y + 500 \<le> 2 ^ 32" using assms(3) by (simp add: y_def)
  have "unat x + unat y < 2 ^ LENGTH(32)" using b c by simp
  then have "unat (x + y) = unat x + unat y" by (simp only: unat_add_lem)
  with a have "500 \<le> unat (x + y)" by simp
  moreover have "t2 - l = x + y" by (simp add: x_def y_def)
  ultimately show ?thesis by (simp add: word_less_nat_alt)
qed


lemma recorded_on_ack_only:
  "server_last_send_time (Send_Data_To_Server json_data s) = server_last_send_time s \<or>
   last (trace (Send_Data_To_Server json_data s)) = Cdc_Tx (''Data sent successfully'' @ LF) \<and>
   server_last_send_time (Send_Data_To_Server json_data s)
     = HAL_GetTick (Send_Data_To_Server json_data s)"
proof -
  define request where "request = snprintf 512
                 (''POST /data HTTP/1.1'' @ CRLF @ ''Host: 172.20.10.11'' @ CRLF @
                  ''Content-Type: application/json'' @ CRLF @
                  ''Content-Length: '' @ show_nat (length json_data) @ CRLF @
                  ''Connection: keep-alive'' @ CRLF @ CRLF @ json_data)"
  define cmd where "cmd = snprintf 128 (''AT+CIPSEND=0,'' @ show_nat (length request) @ CRLF)"
  define s1 where "s1 = HAL_Delay 100 (Send_Command (''AT+CIPSTATUS'' @ CRLF)
                          (CDC_Transmit_FS (''Checking connection status...'' @ LF) 29 s))"
  define s2 where "s2 = HAL_Delay 200 (Send_Command cmd
                          (CDC_Transmit_FS (''Sending CIPSEND command...'' @ LF) 27 (Clear_RX_Buffer s1)))"
  obtain got s3 where r: "send_retry cmd 0 (HAL_GetTick s2) s2 = (got, s3)"
    by (cases "send_retry cmd 0 (HAL_GetTick s2) s2")
  have s2: "server_last_send_time s2 = server_last_send_time s"
    by (simp add: s2_def s1_def)
  with send_retry_last_send_pair [OF r] have s3: "server_last_send_time s3 = server_last_send_time s"
    by simp
  have eq: "Send_Data_To_Server json_data s =
      (if HAL_GetTick s - server_last_send_time s < 500 then s
       else if length request > 512 then CDC_Transmit_FS (''Data too large to send'' @ LF) 23 s
       else if strstr (rx_string s1) ''STATUS:4'' \<noteq> None \<or> strstr (rx_string s1) ''STATUS:5'' \<noteq> None
         then (Clear_RX_Buffer (CDC_Transmit_FS (''Connection lost, reconnecting...'' @ LF) 32 s1))
                \<lparr>connection_established := 0\<rparr>
       else if got then send_payload request s3
       else (Clear_RX_Buffer (CDC_Transmit_FS (''Failed after max retries'' @ LF) 25 s3))
                \<lparr>connection_established := 0\<rparr>)"
    unfolding Send_Data_To_Server_def Let_def request_def [symmetric] cmd_def [symmetric]
      s1_def [symmetric] s2_def [symmetric] r
    by simp
  show ?thesis
    using send_payload_last_send [of request s3] s3
    by (simp add: eq s1_def)
qed

lemma send_ok_state_entry:
  "HAL_GetTick send_ok_state = 1000 \<and> server_last_send_time send_ok_state = 0"
  by (simp add: send_ok_state_def loop_entry_def HAL_GetTick_def)

lemma status4_state_entry:
  "HAL_GetTick status4_state = 1000 \<and> server_last_send_time status4_state = 0"
  by (simp add: status4_state_def loop_entry_def HAL_GetTick_def)

lemma status4_state_run:
  "HAL_GetTick (Send_Data_To_Server ''{}'' status4_state) = 1100 \<and>
   server_last_send_time (Send_Data_To_Server ''{}'' status4_state) = 0"
  by (simp add: status4_state_def Send_Data_To_Server_def run_defs cong: let_weak_cong)


text \<open>
  C5, as the code has it. A call made fewer than 500 ticks after the recorded time of
  the last send returns the state as it is: nothing is transmitted, nothing changes. Every
  other call transmits: it sends at least the status query \<^verbatim>\<open>AT+CIPSTATUS\<close> to the
  modem. The time is written in one place only, when \<^verbatim>\<open>SEND OK\<close> has been seen: a call
  either leaves it as it was, or ends with the message of success and has set it to the
  tick of that moment. So take two calls fewer than 500 ticks apart, the second, in state
  \<open>s'\<close>, made after the first has returned and with the recorded time as the first left
  it. If the first call has recorded its send, the second is dropped. If the first call
  passed the test and recorded nothing, the second passes it too and transmits as well
  (the tick counter being at least 500 ticks away from wrapping round since the recorded
  time). And a first call that is itself dropped changes nothing, by the first statement.
\<close>

theorem send_gate:
  "(HAL_GetTick s - server_last_send_time s < 500 \<longrightarrow> Send_Data_To_Server json_data s = s) \<and>
   (\<not> HAL_GetTick s - server_last_send_time s < 500 \<longrightarrow>
      (\<exists>rest. uart_sent (trace (Send_Data_To_Server json_data s))
                 = uart_sent (trace s) @ (''AT+CIPSTATUS'' @ CRLF) # rest)) \<and>
   (server_last_send_time (Send_Data_To_Server json_data s) = server_last_send_time s \<or>
    last (trace (Send_Data_To_Server json_data s)) = Cdc_Tx (''Data sent successfully'' @ LF) \<and>
    server_last_send_time (Send_Data_To_Server json_data s)
      = HAL_GetTick (Send_Data_To_Server json_data s)) \<and>
   (server_last_send_time (Send_Data_To_Server json_data s)
      = HAL_GetTick (Send_Data_To_Server json_data s) \<and>
    server_last_send_time s' = server_last_send_time (Send_Data_To_Server json_data s) \<and>
    HAL_GetTick (Send_Data_To_Server json_data s) - HAL_GetTick s \<le> HAL_GetTick s' - HAL_GetTick s \<and>
    HAL_GetTick s' - HAL_GetTick s < 500 \<longrightarrow>
      Send_Data_To_Server json_data' s' = s') \<and>
   (\<not> HAL_GetTick s - server_last_send_time s < 500 \<and>
    server_last_send_time (Send_Data_To_Server json_data s) = server_last_send_time s \<and>
    server_last_send_time s' = server_last_send_time (Send_Data_To_Server json_data s) \<and>
    HAL_GetTick s' - HAL_GetTick s < 500 \<and>
    unat (HAL_GetTick s - server_last_send_time s) + 500 \<le> 2 ^ 32 \<longrightarrow>
      (\<exists>rest. uart_sent (trace (Send_Data_To_Server json_data' s'))
                 = uart_sent (trace s') @ (''AT+CIPSTATUS'' @ CRLF) # rest))"
proof (intro conjI impI)
  show "Send_Data_To_Server json_data s = s" if "HAL_GetTick s - server_last_send_time s < 500"
    using that by (simp add: Send_Data_To_Server_def Let_def)
next
  show "\<exists>rest. uart_sent (trace (Send_Data_To_Server json_data s))
                 = uart_sent (trace s) @ (''AT+CIPSTATUS'' @ CRLF) # rest"
    if "\<not> HAL_GetTick s - server_last_send_time s < 500"
    using that by (rule passing_call_transmits)
next
  show "server_last_send_time (Send_Data_To_Server json_data s) = server_last_send_time s \<or>
    last (trace (Send_Data_To_Server json_data s)) = Cdc_Tx (''Data sent successfully'' @ LF) \<and>
    server_last_send_time (Send_Data_To_Server json_data s)
      = HAL_GetTick (Send_Data_To_Server json_data s)"
    by (rule recorded_on_ack_only)
next
  assume a: "server_last_send_time (Send_Data_To_Server json_data s)
      = HAL_GetTick (Send_Data_To_Server json_data s) \<and>
    server_last_send_time s' = server_last_send_time (Send_Data_To_Server json_data s) \<and>
    HAL_GetTick (Send_Data_To_Server json_data s) - HAL_GetTick s \<le> HAL_GetTick s' - HAL_GetTick s \<and>
    HAL_GetTick s' - HAL_GetTick s < 500"
  then have "HAL_GetTick s' - HAL_GetTick (Send_Data_To_Server json_data s) < 500"
    using second_call_in_window [of "HAL_GetTick (Send_Data_To_Server json_data s)" "HAL_GetTick s"
            "HAL_GetTick s'"]
    by simp
  with a have "HAL_GetTick s' - server_last_send_time s' < 500" by simp
  then show "Send_Data_To_Server json_data' s' = s'"
    by (simp add: Send_Data_To_Server_def Let_def)
next
  assume a: "\<not> HAL_GetTick s - server_last_send_time s < 500 \<and>
    server_last_send_time (Send_Data_To_Server json_data s) = server_last_send_time s \<and>
    server_last_send_time s' = server_last_send_time (Send_Data_To_Server json_data s) \<and>
    HAL_GetTick s' - HAL_GetTick s < 500 \<and>
    unat (HAL_GetTick s - server_last_send_time s) + 500 \<le> 2 ^ 32"
  then have "\<not> HAL_GetTick s' - server_last_send_time s < 500"
    using second_call_past_window [of "HAL_GetTick s" "server_last_send_time s" "HAL_GetTick s'"]
    by simp
  with a have "\<not> HAL_GetTick s' - server_last_send_time s' < 500" by simp
  then show "\<exists>rest. uart_sent (trace (Send_Data_To_Server json_data' s'))
                 = uart_sent (trace s') @ (''AT+CIPSTATUS'' @ CRLF) # rest"
    by (rule passing_call_transmits)
qed


lemma early_call_entry:
  "HAL_GetTick (HAL_Delay 200 boot) = 200 \<and> server_last_send_time boot = 0"
  by (simp add: HAL_GetTick_def) (simp add: boot_def loop_entry_def)

text \<open>
  The witness. The modem acknowledges a first send, which returns at tick 1360, and the call
  that follows at once is dropped. The modem answers \<^verbatim>\<open>STATUS:4\<close>, the first call
  returns after 100 ticks with nothing recorded, and the call that follows transmits again.
  A call at tick 200 after boot is dropped.
\<close>

theorem send_gate_witness:
  "\<not> HAL_GetTick send_ok_state - server_last_send_time send_ok_state < 500 \<and>
   server_last_send_time (Send_Data_To_Server ''{}'' send_ok_state)
     = HAL_GetTick (Send_Data_To_Server ''{}'' send_ok_state) \<and>
   HAL_GetTick (Send_Data_To_Server ''{}'' send_ok_state) - HAL_GetTick send_ok_state < 500 \<and>
   Send_Data_To_Server ''{}'' (Send_Data_To_Server ''{}'' send_ok_state)
     = Send_Data_To_Server ''{}'' send_ok_state \<and>
   \<not> HAL_GetTick status4_state - server_last_send_time status4_state < 500 \<and>
   server_last_send_time (Send_Data_To_Server ''{}'' status4_state)
     = server_last_send_time status4_state \<and>
   HAL_GetTick (Send_Data_To_Server ''{}'' status4_state) - HAL_GetTick status4_state < 500 \<and>
   (\<exists>rest. uart_sent (trace (Send_Data_To_Server ''{}'' (Send_Data_To_Server ''{}'' status4_state)))
              = uart_sent (trace (Send_Data_To_Server ''{}'' status4_state))
                @ (''AT+CIPSTATUS'' @ CRLF) # rest) \<and>
   HAL_GetTick (HAL_Delay 200 boot) - server_last_send_time (HAL_Delay 200 boot) < 500 \<and>
   Send_Data_To_Server ''{}'' (HAL_Delay 200 boot) = HAL_Delay 200 boot"
  using send_gate [where s = send_ok_state and json_data = "''{}''"
          and s' = "Send_Data_To_Server ''{}'' send_ok_state" and json_data' = "''{}''"]
        send_gate [where s = status4_state and json_data = "''{}''"
          and s' = "Send_Data_To_Server ''{}'' status4_state" and json_data' = "''{}''"]
        send_gate [where s = "HAL_Delay 200 boot" and json_data = "''{}''"
          and s' = "HAL_Delay 200 boot" and json_data' = "''{}''", THEN conjunct1]
  by (simp add: send_ok_state_run send_ok_state_entry status4_state_run status4_state_entry
      early_call_entry)

text \<open>
  C5 as stated fails when the first call is not acknowledged. At tick 1000 the first call
  queries the status, reads \<^verbatim>\<open>STATUS:4\<close> and returns at tick 1100 without having set
  the time of the last send; the second call, 100 ticks after the first, passes the gate
  and transmits as well.
\<close>

theorem unacknowledged_send_counterexample:
  "HAL_GetTick (Send_Data_To_Server ''{}'' status4_state) - HAL_GetTick status4_state = 100 \<and>
   uart_sent (trace (Send_Data_To_Server ''{}'' status4_state)) = [''AT+CIPSTATUS'' @ CRLF] \<and>
   uart_sent (trace (Send_Data_To_Server ''{}'' (Send_Data_To_Server ''{}'' status4_state)))
     = [''AT+CIPSTATUS'' @ CRLF, ''AT+CIPSTATUS'' @ CRLF]"
  by (simp add: status4_state_def Send_Data_To_Server_def run_defs cong: let_weak_cong)

subsection \<open>After an error or a timeout\<close>

lemma isr_sensor:
  "sensor_irq e \<Longrightarrow>
     rx_buffer (isr e s) = rx_buffer s \<and> button_action_pending (isr e s) = button_action_pending s \<and>
     button_action_type (isr e s) = button_action_type s"
  by (cases e) (simp_all add: HAL_GPIO_EXTI_Callback_def Let_def)

lemma deliver_calm:
  "list_all sensor_irq (map snd p) \<Longrightarrow>
     list_all sensor_irq (map snd (pending (deliver d p s))) \<and>
     rx_buffer (deliver d p s) = rx_buffer s \<and>
     button_action_pending (deliver d p s) = button_action_pending s \<and>
     button_action_type (deliver d p s) = button_action_type s"
proof (induction p arbitrary: d s)
  case Nil
  then show ?case by simp
next
  case (Cons a p)
  obtain gap e where a: "a = (gap, e)" by (cases a)
  with Cons.prems have e: "sensor_irq e" and p: "list_all sensor_irq (map snd p)" by simp_all
  show ?case
  proof (cases "gap \<le> d")
    case True
    with Cons.IH [OF p, of "d - gap" "isr e (s\<lparr>uwTick := uwTick s + of_nat gap\<rparr>)"]
      isr_sensor [OF e, of "s\<lparr>uwTick := uwTick s + of_nat gap\<rparr>"]
    show ?thesis by (simp add: a)
  next
    case False
    with e p show ?thesis by (simp add: a)
  qed
qed

lemma HAL_Delay_calm:
  assumes "calm s"
  shows "calm (HAL_Delay d s) \<and> rx_string (HAL_Delay d s) = rx_string s \<and>
         button_action_pending (HAL_Delay d s) = button_action_pending s \<and>
         button_action_type (HAL_Delay d s) = button_action_type s"
  using deliver_calm [of "pending s" d s] assms
  by (simp add: HAL_Delay_def calm_def rx_string_def)

lemma undisturbed_HAL_Delay [simp]: "undisturbed bp s \<Longrightarrow> undisturbed bp (HAL_Delay d s)"
  using HAL_Delay_calm [of s d] by (simp add: undisturbed_def)

lemma undisturbed_prims [simp]:
  "undisturbed bp (CDC_Transmit_FS b n s) = undisturbed bp s"
  "undisturbed bp (HAL_UART_Transmit b n s) = undisturbed bp s"
  "undisturbed bp (Change_Response_Status st s) = undisturbed bp s"
  "undisturbed bp (HAL_UART_Receive_IT i s) = undisturbed bp s"
  "undisturbed bp (HAL_UART_AbortReceive_IT s) = undisturbed bp s"
  "undisturbed bp (Beri_Registre device reg len s) = undisturbed bp s"
  "undisturbed bp (spi1_beriRegistre reg len s) = undisturbed bp s"
  "undisturbed bp (HAL_UART_Transmit_bytes bs n s) = undisturbed bp s"
  "undisturbed bp (CDC_Transmit_FS_bytes bs n s) = undisturbed bp s"
  by (simp_all add: undisturbed_def calm_def rx_string_def prim_defs Beri_Registre_def
      spi1_beriRegistre_def HAL_UART_Transmit_bytes_def CDC_Transmit_FS_bytes_def Let_def)

lemma undisturbed_updates [simp]:
  "undisturbed bp (s\<lparr>setup_stage := v1\<rparr>) = undisturbed bp s"
  "undisturbed bp (s\<lparr>response_status := v1\<rparr>) = undisturbed bp s"
  "undisturbed bp (s\<lparr>has_response_changed := v1\<rparr>) = undisturbed bp s"
  "undisturbed bp (s\<lparr>tick_when_sent := v2\<rparr>) = undisturbed bp s"
  "undisturbed bp (s\<lparr>was_client_connected := v1\<rparr>) = undisturbed bp s"
  "undisturbed bp (s\<lparr>was_client_requesting_page := v1\<rparr>) = undisturbed bp s"
  "undisturbed bp (s\<lparr>data_ready_mag := v1\<rparr>) = undisturbed bp s"
  "undisturbed bp (s\<lparr>data_ready_acc := v1\<rparr>) = undisturbed bp s"
  "undisturbed bp (s\<lparr>data_ready_gyr := v1\<rparr>) = undisturbed bp s"
  "undisturbed bp (s\<lparr>packet_number := v3\<rparr>) = undisturbed bp s"
  by (simp_all add: undisturbed_def calm_def rx_string_def)

lemma no_frame_empty: "strstr [] (CRLF @ CRLF) = None"
  by simp

lemma undisturbed_Clear_RX_Buffer [simp]:
  "undisturbed bp s \<Longrightarrow> undisturbed bp (Clear_RX_Buffer s)"
  by (simp add: undisturbed_def rx_string_reset) (simp add: calm_def prim_defs Let_def)

lemma undisturbed_Send_Command [simp]:
  "undisturbed bp s \<Longrightarrow> undisturbed bp (Send_Command cmd s)"
  by (simp add: undisturbed_def Send_Command_after) (simp add: calm_def Send_Command_def prim_defs Let_def)

lemma undisturbed_logs [simp]:
  "undisturbed bp s \<Longrightarrow> undisturbed bp (Log_Client_Status_Change s)"
  "undisturbed bp s \<Longrightarrow> undisturbed bp (Log_Client_Request_Change s)"
  "undisturbed bp s \<Longrightarrow> undisturbed bp (Log_Response_Status_Change s)"
  "undisturbed bp s \<Longrightarrow> undisturbed bp (Log_Setup_Stage_Change s)"
  by (simp_all add: Log_Client_Status_Change_def Log_Client_Request_Change_def
      Log_Response_Status_Change_def Log_Setup_Stage_Change_def Let_def)

lemma undisturbed_Has_Response_Finished [simp]:
  "undisturbed bp s \<Longrightarrow> undisturbed bp (snd (Has_Response_Finished s))"
  by (simp add: Has_Response_Finished_def Let_def)

lemma undisturbed_Set_Setup_Stage [simp]:
  "undisturbed bp s \<Longrightarrow> undisturbed bp (Set_Setup_Stage st s)"
  by (simp add: Set_Setup_Stage_def Let_def)

lemma undisturbed_Handle_Response [simp]:
  "undisturbed bp s \<Longrightarrow> undisturbed bp (Handle_Response s)"
  by (simp add: Handle_Response_def Let_def)

lemma undisturbed_Configure [simp]:
  "undisturbed bp s \<Longrightarrow> undisturbed bp (Configure_ESP_As_Access_Point s)"
  by (simp add: Configure_ESP_As_Access_Point_def Send_HTML_Header_def Let_def)


lemma undisturbed_Transmit_Data_ASCII [simp]:
  "undisturbed bp s \<Longrightarrow> undisturbed bp (Transmit_Data_ASCII label x y z s)"
  by (simp add: Transmit_Data_ASCII_def Let_def) (simp add: undisturbed_def)

lemma undisturbed_Clear_Interrupts [simp]:
  "undisturbed bp (Clear_Interrupts s) = undisturbed bp s"
  by (simp add: Clear_Interrupts_def Let_def)

lemma undisturbed_handlers [simp]:
  "undisturbed bp s \<Longrightarrow> undisturbed bp (Handle_Magnetometer s)"
  "undisturbed bp s \<Longrightarrow> undisturbed bp (Handle_Accelerometer s)"
  "undisturbed bp s \<Longrightarrow> undisturbed bp (Handle_Gyroscope s)"
  by (simp_all add: Handle_Magnetometer_def Handle_Accelerometer_def Handle_Gyroscope_def
      Let_def case_prod_beta)

lemma undisturbed_main_sensor_step [simp]:
  "undisturbed bp s \<Longrightarrow> undisturbed bp (main_sensor_step s)"
  by (simp add: main_sensor_step_def Let_def)

lemma progress_HAL_Delay [simp]: "progress (HAL_Delay d s) = progress s"
  by (simp add: progress_def)

lemma progress_prims [simp]:
  "progress (CDC_Transmit_FS b n s) = progress s"
  "progress (Beri_Registre device reg len s) = progress s"
  "progress (spi1_beriRegistre reg len s) = progress s"
  "progress (HAL_UART_Transmit_bytes bs n s) = progress s"
  "progress (CDC_Transmit_FS_bytes bs n s) = progress s"
  "progress (Clear_RX_Buffer s) = progress s"
  by (simp_all add: progress_def prim_defs Beri_Registre_def spi1_beriRegistre_def
      HAL_UART_Transmit_bytes_def CDC_Transmit_FS_bytes_def Let_def)

lemma progress_updates [simp]:
  "progress (s\<lparr>has_response_changed := v1\<rparr>) = progress s"
  "progress (s\<lparr>was_client_connected := v1\<rparr>) = progress s"
  "progress (s\<lparr>was_client_requesting_page := v1\<rparr>) = progress s"
  "progress (s\<lparr>button_action_pending := v1\<rparr>) = progress s"
  "progress (s\<lparr>data_ready_mag := v1\<rparr>) = progress s"
  "progress (s\<lparr>data_ready_acc := v1\<rparr>) = progress s"
  "progress (s\<lparr>data_ready_gyr := v1\<rparr>) = progress s"
  "progress (s\<lparr>packet_number := v3\<rparr>) = progress s"
  by (simp_all add: progress_def)

lemma progress_logs [simp]:
  "progress (Log_Client_Status_Change s) = progress s"
  "progress (Log_Client_Request_Change s) = progress s"
  "progress (Log_Response_Status_Change s) = progress s"
  "progress (snd (Has_Response_Finished s)) = progress s"
  by (simp_all add: Log_Client_Status_Change_def Log_Client_Request_Change_def
      Log_Response_Status_Change_def Has_Response_Finished_def Let_def)

lemma progress_Clear_Interrupts [simp]: "progress (Clear_Interrupts s) = progress s"
  by (simp add: Clear_Interrupts_def Let_def)

lemma mode_bus [simp]:
  "transmission_mode (Beri_Registre device reg len s) = transmission_mode s"
  "transmission_mode (Clear_Interrupts s) = transmission_mode s"
  "transmission_mode (spi1_beriRegistre reg len s) = transmission_mode s"
  by (simp_all add: Clear_Interrupts_def Beri_Registre_def spi1_beriRegistre_def Let_def)

lemma progress_Transmit_Data_ASCII:
  "transmission_mode s \<noteq> MODE_ASCII_UART \<Longrightarrow> progress (Transmit_Data_ASCII label x y z s) = progress s"
  by (simp add: Transmit_Data_ASCII_def Let_def)

lemma progress_handlers:
  assumes "transmission_mode s \<noteq> MODE_ASCII_UART"
  shows "progress (Handle_Magnetometer s) = progress s"
    and "progress (Handle_Accelerometer s) = progress s"
    and "progress (Handle_Gyroscope s) = progress s"
  using assms
  by (simp_all add: Handle_Magnetometer_def Handle_Accelerometer_def Handle_Gyroscope_def
      Let_def case_prod_beta progress_Transmit_Data_ASCII)

lemma progress_handlers_if:
  assumes "undisturbed bp s"
  shows "progress (if c then Handle_Magnetometer s else s) = progress s"
    and "progress (if c then Handle_Accelerometer s else s) = progress s"
    and "progress (if c then Handle_Gyroscope s else s) = progress s"
  using assms by (simp_all add: progress_handlers undisturbed_def)

lemma undisturbed_handlers_if:
  assumes "undisturbed bp s"
  shows "undisturbed bp (if c then Handle_Magnetometer s else s)"
    and "undisturbed bp (if c then Handle_Accelerometer s else s)"
  using assms by simp_all

lemma progress_main_sensor_step:
  assumes "undisturbed bp s"
  shows "progress (main_sensor_step s) = progress s"
proof -
  define m where "m = (if data_ready_mag s \<noteq> 0 then Handle_Magnetometer s else s)"
  define a where "a = (if data_ready_acc m \<noteq> 0 then Handle_Accelerometer m else m)"
  have m: "undisturbed bp m" unfolding m_def using assms by (rule undisturbed_handlers_if)
  then have a: "undisturbed bp a" unfolding a_def by (rule undisturbed_handlers_if)
  have pm: "progress m = progress s"
    unfolding m_def using assms by (rule progress_handlers_if)
  have pa: "progress a = progress m"
    unfolding a_def using m by (rule progress_handlers_if)
  have pg: "progress (if data_ready_gyr a \<noteq> 0 then Handle_Gyroscope a else a) = progress a"
    using a by (rule progress_handlers_if)
  have "main_sensor_step s =
          (if connection_established s \<noteq> 0
           then (if data_ready_gyr a \<noteq> 0 then Handle_Gyroscope a else a) else s)"
    unfolding main_sensor_step_def Let_def a_def m_def ..
  with pm pa pg show ?thesis by simp
qed

lemma main_loop_body_eq:
  "main_loop_body s =
     (case Check_Reception_Completion (Log_Client_Request_Change (Log_Client_Status_Change s)) of
        None \<Rightarrow> None
      | Some s1 \<Rightarrow>
          Some (main_sensor_step (main_connect_step (main_button_step (main_send_request_step
            (main_timeout_step
               (if fst (Has_Response_Finished s1) = 1
                then Handle_Response (snd (Has_Response_Finished s1))
                else snd (Has_Response_Finished s1))))))))"
  by (simp add: main_loop_body_def Let_def case_prod_beta split: option.split)

lemma Has_Response_Finished_flag:
  "fst (Has_Response_Finished s) = (if response_status s < WAITING then 1 else 0)"
  by (simp add: Has_Response_Finished_def Let_def Log_Response_Status_Change_def
      CDC_Transmit_FS_def)

lemma Handle_Response_progress:
  assumes "response_status s = ERROR \<or> response_status s = TIMEOUT"
  shows "progress (Handle_Response s) = (setup_stage s, IDLE, uart_sent (trace s))"
  using assms
  by (auto simp add: Handle_Response_def Let_def progress_def prim_defs)

lemma undisturbed_check:
  "undisturbed bp s \<Longrightarrow> Check_Reception_Completion s = Some s"
  by (simp add: undisturbed_def Check_Reception_Completion_def)


lemma Configure_stage [simp]:
  "setup_stage (Configure_ESP_As_Access_Point s) = setup_stage s"
  by (simp add: Configure_ESP_As_Access_Point_def Send_HTML_Header_def Let_def CDC_Transmit_FS_def)

lemma trigger_iteration:
  assumes st: "response_status s = ERROR \<or> response_status s = TIMEOUT \<or> response_status s = IDLE"
    and u: "undisturbed bp s" and bp: "bp \<noteq> 0"
  shows "\<exists>s1. main_loop_body s = Some s1 \<and> undisturbed 0 s1 \<and>
              progress s1 = (setup_stage s, SEND_REQUEST, uart_sent (trace s))"
proof -
  define a where "a = Log_Client_Request_Change (Log_Client_Status_Change s)"
  define b where "b = snd (Has_Response_Finished a)"
  define c where "c = (if fst (Has_Response_Finished a) = 1 then Handle_Response b else b)"
  define e where "e = (Change_Response_Status SEND_REQUEST c)\<lparr>button_action_pending := 0\<rparr>"
  have ua: "undisturbed bp a" and pa: "progress a = progress s"
    unfolding a_def using u by simp_all
  have ub: "undisturbed bp b" and pb: "progress b = progress s"
    unfolding b_def using ua pa by simp_all
  have check: "Check_Reception_Completion a = Some a"
    using ua by (rule undisturbed_check)
  have uc: "undisturbed bp c"
    unfolding c_def using ub by simp
  have pc: "progress c = (setup_stage s, IDLE, uart_sent (trace s))"
  proof (cases "response_status s = IDLE")
    case True
    with pa have "fst (Has_Response_Finished a) = 0"
      by (simp add: Has_Response_Finished_flag progress_def)
    with pb True show ?thesis by (simp add: c_def progress_def)
  next
    case False
    with st have et: "response_status s = ERROR \<or> response_status s = TIMEOUT" by simp
    with pa have "fst (Has_Response_Finished a) = 1"
      by (auto simp add: Has_Response_Finished_flag progress_def)
    then have "c = Handle_Response b" by (simp add: c_def)
    moreover from et pb have "response_status b = ERROR \<or> response_status b = TIMEOUT"
      by (simp add: progress_def)
    ultimately show ?thesis
      using pb by (simp add: Handle_Response_progress) (simp add: progress_def)
  qed
  have steps: "main_button_step (main_send_request_step (main_timeout_step c)) = e"
    using pc uc bp
    by (simp add: main_timeout_step_def main_send_request_step_def main_button_step_def
        progress_def undisturbed_def e_def Change_Response_Status_def)
  have ue: "undisturbed 0 e"
    using uc by (simp add: e_def undisturbed_def calm_def rx_string_def Change_Response_Status_def)
  have pe: "progress e = (setup_stage s, SEND_REQUEST, uart_sent (trace s))"
    using pc by (simp add: e_def progress_def Change_Response_Status_def)
  have conn: "main_connect_step e = e"
    using ue by (simp add: main_connect_step_def undisturbed_def)
  have "main_loop_body s = Some (main_sensor_step (main_connect_step (main_button_step
          (main_send_request_step (main_timeout_step c)))))"
    using check unfolding main_loop_body_eq c_def b_def a_def by simp
  then have "main_loop_body s = Some (main_sensor_step e)"
    by (simp add: steps conn)
  moreover have "undisturbed 0 (main_sensor_step e)" using ue by simp
  moreover have "progress (main_sensor_step e) = (setup_stage s, SEND_REQUEST, uart_sent (trace s))"
    using progress_main_sensor_step [OF ue] pe by simp
  ultimately show ?thesis by blast
qed

lemma issue_iteration:
  assumes st: "response_status s = SEND_REQUEST" and u: "undisturbed 0 s"
  shows "\<exists>s2. main_loop_body s = Some s2 \<and> setup_stage s2 = setup_stage s \<and>
              uart_sent (trace s2) = uart_sent (trace s) @ stage_command (setup_stage s)"
proof -
  define a where "a = Log_Client_Request_Change (Log_Client_Status_Change s)"
  define b where "b = snd (Has_Response_Finished a)"
  define f where "f = Configure_ESP_As_Access_Point b"
  have ua: "undisturbed 0 a" and pa: "progress a = progress s"
    unfolding a_def using u by simp_all
  have ub: "undisturbed 0 b" and pb: "progress b = progress s"
    unfolding b_def using ua pa by simp_all
  have check: "Check_Reception_Completion a = Some a"
    using ua by (rule undisturbed_check)
  from st pa have flag: "fst (Has_Response_Finished a) = 0"
    by (simp add: Has_Response_Finished_flag progress_def)
  from st pb have sb: "response_status b = SEND_REQUEST" by (simp add: progress_def)
  have uf: "undisturbed 0 f" unfolding f_def using ub by simp
  have steps: "main_connect_step (main_button_step (main_send_request_step (main_timeout_step b))) = f"
    using sb uf
    by (simp add: main_timeout_step_def main_send_request_step_def main_button_step_def
        main_connect_step_def f_def [symmetric] undisturbed_def)
  have "main_loop_body s = Some (main_sensor_step (main_connect_step (main_button_step
          (main_send_request_step (main_timeout_step b)))))"
    using check flag unfolding main_loop_body_eq b_def a_def by simp
  then have body: "main_loop_body s = Some (main_sensor_step f)"
    by (simp add: steps)
  have "progress (main_sensor_step f) = progress f"
    using uf by (rule progress_main_sensor_step)
  then have "setup_stage (main_sensor_step f) = setup_stage f"
    and "uart_sent (trace (main_sensor_step f)) = uart_sent (trace f)"
    by (simp_all add: progress_def)
  moreover from pb have "setup_stage b = setup_stage s" "uart_sent (trace b) = uart_sent (trace s)"
    by (simp_all add: progress_def)
  ultimately have "setup_stage (main_sensor_step f) = setup_stage s \<and>
      uart_sent (trace (main_sensor_step f)) = uart_sent (trace s) @ stage_command (setup_stage s)"
    by (simp add: f_def Configure_sent)
  with body show ?thesis by blast
qed

lemma trigger_reissues:
  assumes "response_status t = ERROR \<or> response_status t = TIMEOUT \<or> response_status t = IDLE"
    and "button_action_pending t \<noteq> 0" and "undisturbed (button_action_pending t) t"
  shows "\<exists>t'. main_loop [p1, p2] t = Some t' \<and> setup_stage t' = setup_stage t \<and>
              uart_sent (trace t') = uart_sent (trace t) @ stage_command (setup_stage t)"
proof -
  from trigger_iteration [OF assms(1,3,2)] obtain s1 where
    b1: "main_loop_body t = Some s1" and u1: "undisturbed 0 s1"
    and p1: "progress s1 = (setup_stage t, SEND_REQUEST, uart_sent (trace t))"
    by blast
  from u1 have u1': "undisturbed 0 (HAL_Delay p1 s1)" by simp
  from p1 have p1': "progress (HAL_Delay p1 s1) = (setup_stage t, SEND_REQUEST, uart_sent (trace t))"
    by simp
  then have "response_status (HAL_Delay p1 s1) = SEND_REQUEST" by (simp add: progress_def)
  from issue_iteration [OF this u1'] obtain s2 where
    b2: "main_loop_body (HAL_Delay p1 s1) = Some s2"
    and r: "setup_stage s2 = setup_stage (HAL_Delay p1 s1)"
      "uart_sent (trace s2) = uart_sent (trace (HAL_Delay p1 s1))
                                @ stage_command (setup_stage (HAL_Delay p1 s1))"
    by blast
  from p1 have "setup_stage s1 = setup_stage t" "uart_sent (trace s1) = uart_sent (trace t)"
    by (simp_all add: progress_def)
  with r have "setup_stage (HAL_Delay p2 s2) = setup_stage t \<and>
      uart_sent (trace (HAL_Delay p2 s2)) = uart_sent (trace t) @ stage_command (setup_stage t)"
    by simp
  moreover have "main_loop [p1, p2] t = Some (HAL_Delay p2 s2)"
    by (simp add: b1 b2)
  ultimately show ?thesis by blast
qed

text \<open>
  C2, as the code has it. With status \<^verbatim>\<open>ERROR\<close> or \<^verbatim>\<open>TIMEOUT\<close>,
  \<^verbatim>\<open>Handle_Response\<close> keeps the stage and sets the status to \<^verbatim>\<open>IDLE\<close>. A short
  press then makes the loop send the command of that same stage again, as long as nothing
  comes in between: when an iteration of the loop starts with status \<^verbatim>\<open>ERROR\<close>,
  \<^verbatim>\<open>TIMEOUT\<close> or \<^verbatim>\<open>IDLE\<close>, a short press pending, a mode other than
  \<^verbatim>\<open>MODE_ASCII_UART\<close>, no \<^verbatim>\<open>"\r\n\r\n"\<close> in the receive buffer, and neither a byte of
  the modem nor an edge of the button among the interrupts still to come, then this
  iteration and the next leave the stage as it is, and the texts they send to the modem
  are exactly the command \<^verbatim>\<open>Configure_ESP_As_Access_Point\<close> has for that stage (none
  for \<^verbatim>\<open>AT_SEND_CONNECT_REQUEST\<close>). The binary packets of the sensor handlers, which
  go to the same UART in \<^verbatim>\<open>MODE_BINARY_UART\<close>, are not texts and are not counted.
\<close>

theorem handle_response_error_timeout:
  "(response_status s = ERROR \<or> response_status s = TIMEOUT \<longrightarrow>
      setup_stage (Handle_Response s) = setup_stage s \<and>
      response_status (Handle_Response s) = IDLE) \<and>
   ((response_status t = ERROR \<or> response_status t = TIMEOUT \<or> response_status t = IDLE) \<and>
    button_action_pending t \<noteq> 0 \<and> button_action_type t = 0 \<and>
    transmission_mode t \<noteq> MODE_ASCII_UART \<and>
    strstr (rx_string t) (CRLF @ CRLF) = None \<and> calm t \<longrightarrow>
      (\<exists>t'. main_loop [p1, p2] t = Some t' \<and> setup_stage t' = setup_stage t \<and>
            uart_sent (trace t') = uart_sent (trace t) @ stage_command (setup_stage t)))"
proof (intro conjI impI)
  assume a: "response_status s = ERROR \<or> response_status s = TIMEOUT"
  then show "setup_stage (Handle_Response s) = setup_stage s"
    using Handle_Response_progress [of s] by (simp add: progress_def)
  from a show "response_status (Handle_Response s) = IDLE"
    using Handle_Response_progress [of s] by (simp add: progress_def)
next
  assume a: "(response_status t = ERROR \<or> response_status t = TIMEOUT \<or> response_status t = IDLE) \<and>
    button_action_pending t \<noteq> 0 \<and> button_action_type t = 0 \<and>
    transmission_mode t \<noteq> MODE_ASCII_UART \<and>
    strstr (rx_string t) (CRLF @ CRLF) = None \<and> calm t"
  then have "undisturbed (button_action_pending t) t" by (simp add: undisturbed_def)
  with a show "\<exists>t'. main_loop [p1, p2] t = Some t' \<and> setup_stage t' = setup_stage t \<and>
            uart_sent (trace t') = uart_sent (trace t) @ stage_command (setup_stage t)"
    by (intro trigger_reissues) simp_all
qed

lemma timed_out_rx: "rx_string timed_out = []"
  by (simp add: timed_out_def boot_def loop_entry_def rx_string_def string_at.simps)

text \<open>
  The witness: the start-server command has timed out and a short press is pending; two
  iterations later \<^verbatim>\<open>AT+CIPSERVER=1,80\<close> has gone out again.
\<close>

theorem handle_response_error_timeout_witness:
  "response_status timed_out = TIMEOUT \<and>
   button_action_pending timed_out \<noteq> 0 \<and> button_action_type timed_out = 0 \<and>
   transmission_mode timed_out \<noteq> MODE_ASCII_UART \<and>
   strstr (rx_string timed_out) (CRLF @ CRLF) = None \<and> calm timed_out \<and>
   setup_stage (Handle_Response timed_out) = AT_START_SERVER \<and>
   response_status (Handle_Response timed_out) = IDLE \<and>
   (\<exists>t'. main_loop [1, 1] timed_out = Some t' \<and> setup_stage t' = AT_START_SERVER \<and>
         uart_sent (trace t') = [''AT+CIPSERVER=1,80'' @ CRLF])"
  using handle_response_error_timeout [of timed_out timed_out 1 1]
  by (simp add: timed_out_rx calm_def stage_command_def)
     (simp add: timed_out_def boot_def loop_entry_def)

lemmas frame_defs = log_reception_def Log_Uart_Response_def update_client_flags_def
  classify_frame_def

lemma late_run_handled:
  "map_option progress (main_loop (take 5 late_periods) late_state)
     = Some (AT_TEST, IDLE, [''AT'' @ CRLF])"
  by (simp add: late_periods_def late_state_def late_irqs_def short_press_def progress_def
      main_defs frame_defs run_defs cong: let_weak_cong)

lemma late_run_handled_last:
  "map_option (last \<circ> trace) (main_loop (take 5 late_periods) late_state)
     = Some (Cdc_Tx (''=ESP_RESPONSE: TIMEOUT...'' @ CRLF))"
  by (simp add: late_periods_def late_state_def late_irqs_def short_press_def
      main_defs frame_defs run_defs cong: let_weak_cong)

lemma late_run:
  "map_option progress (main_loop late_periods late_state)
     = Some (AT_SET_CONNECT_MODE, WAITING, [''AT'' @ CRLF, ''AT+CWMODE=3'' @ CRLF])"
  by (simp add: late_periods_def late_state_def late_irqs_def short_press_def progress_def
      main_defs frame_defs run_defs cong: let_weak_cong)

text \<open>
  C2 as stated fails when the modem answers late. In the run above the \<^verbatim>\<open>AT\<close> command
  times out, and after five iterations the timeout has been handled: the stage is still
  \<^verbatim>\<open>AT_TEST\<close>, the status is \<^verbatim>\<open>IDLE\<close>, and \<^verbatim>\<open>AT\<close> is all that has been sent. Then
  the late \<^verbatim>\<open>OK\<close> arrives and is taken for a success, the stage moves on, and the short
  press that follows makes the loop send \<^verbatim>\<open>AT+CWMODE=3\<close>, the command of the next
  stage, not \<^verbatim>\<open>AT\<close> again.
\<close>

theorem late_ok_counterexample:
  "map_option progress (main_loop (take 5 late_periods) late_state)
     = Some (AT_TEST, IDLE, [''AT'' @ CRLF]) \<and>
   map_option (last \<circ> trace) (main_loop (take 5 late_periods) late_state)
     = Some (Cdc_Tx (''=ESP_RESPONSE: TIMEOUT...'' @ CRLF)) \<and>
   map_option progress (main_loop late_periods late_state)
     = Some (AT_SET_CONNECT_MODE, WAITING, [''AT'' @ CRLF, ''AT+CWMODE=3'' @ CRLF])"
  using late_run_handled late_run_handled_last late_run by simp

end
